theory Spec2Isabelle
  imports Main "HOL-Library.AList"
begin

section \<open>Breakout rooms: the HTTP service layer and the client store\<close>

text \<open>
  The development embeds two source files of the breakout-rooms feature:
  \<^item> \<^verbatim>\<open>src/services/breakoutRoomsService.ts\<close>: eleven functions, each one call of
    \<^verbatim>\<open>axios.post\<close>, \<^verbatim>\<open>axios.get\<close> or \<^verbatim>\<open>axios.delete\<close>;
  \<^item> the pinia store \<^verbatim>\<open>breakoutRooms\<close> (state \<^verbatim>\<open>rooms\<close>, two getters, three
    synchronous and eleven asynchronous actions).

  Everything the code does besides updating \<^verbatim>\<open>rooms\<close> (HTTP requests, dispatches to the
  general vuex store, the event bus, the console, toasts) is recorded, in order, in an
  effect log carried beside the state. An asynchronous action is a function from the
  state to an outcome and a new state; the outcome \<open>Inl e\<close> is a rejected promise.
\<close>

subsection \<open>Data\<close>

text \<open>
  The fields of \<^verbatim>\<open>Conversation\<close> (and of \<^verbatim>\<open>BreakoutRoom\<close>, which the code obtains by a
  cast) that the code reads: \<^verbatim>\<open>token\<close>, \<^verbatim>\<open>objectType\<close>, \<^verbatim>\<open>objectId\<close>. The type itself is
  declared in \<^verbatim>\<open>../types\<close>; all its other fields are the record's extension.
\<close>

record conversation =
  token :: string
  objectType :: string
  objectId :: string

text \<open>Of \<^verbatim>\<open>Participant\<close> the code reads \<^verbatim>\<open>roomToken\<close>.\<close>

record participant =
  roomToken :: string
  attendeeId :: int

text \<open>The parameter type \<^verbatim>\<open>Conversation | Conversation[]\<close> of \<^verbatim>\<open>processConversations\<close>.\<close>

datatype conversationOrArray = Single conversation | Array "conversation list"

text \<open>
  A value a promise is rejected with. The code never inspects it; the two constructors
  are the two kinds of failure of an HTTP client: no response at all, or a response with
  an error status.
\<close>

datatype error = NetworkError | ResponseError nat

datatype http_method = GET | POST | DELETE

text \<open>
  \<^verbatim>\<open>generateOcsUrl(path, { token })\<close> is a library function: its result is kept symbolic,
  as the path template and the value given for \<^verbatim>\<open>{token}\<close>.
\<close>

datatype url = generateOcsUrl string string

datatype json = Num int | Str string | Undefined

text \<open>
  One call of axios: the method, the URL and the object literal passed as request body
  (\<open>None\<close> when the call passes no body).
\<close>

record request =
  http_method :: http_method
  url :: url
  payload :: "(string \<times> json) list option"

text \<open>The value of \<^verbatim>\<open>t(app, text)\<close>, the localized form of a fixed source string.\<close>

datatype l10n = Translated string string

datatype event =
    HttpRequest request
  | Dispatch_patchConversations "conversation list"
  | Dispatch_deleteConversation string
  | Dispatch_patchParticipants string "participant list" bool
  | Dispatch_showSidebar
  | Emit string string
  | Console_error error
  | ShowError l10n

text \<open>
  A \<^verbatim>\<open>Record<string, V>\<close> is the list of its own properties, in the order in which
  \<^verbatim>\<open>for ... in\<close>, \<^verbatim>\<open>Object.values\<close> and \<^verbatim>\<open>Object.entries\<close> enumerate them: first the
  keys that are array indices (canonical decimal numerals below \<^verbatim>\<open>2^32 - 1\<close>), in
  ascending numeric order, then all other keys in the order of their creation.
\<close>

type_synonym 'v js_record = "(string \<times> 'v) list"

definition is_digit :: "char \<Rightarrow> bool" where
  "is_digit c = (c \<in> set ''0123456789'')"

fun canonical_numeral :: "string \<Rightarrow> bool" where
  "canonical_numeral [] = False"
| "canonical_numeral [c] = is_digit c"
| "canonical_numeral (c # cs) = (is_digit c \<and> c \<noteq> CHR ''0'' \<and> list_all is_digit cs)"

definition decimal :: "string \<Rightarrow> nat" where
  "decimal key = foldl (\<lambda>n c. 10 * n + (of_char c - 48)) 0 key"

definition array_index :: "string \<Rightarrow> nat option" where
  "array_index key =
     (if canonical_numeral key \<and> decimal key < 4294967295 then Some (decimal key) else None)"

definition index_below :: "nat \<Rightarrow> string \<times> 'v \<Rightarrow> bool" where
  "index_below n p = (case array_index (fst p) of None \<Rightarrow> False | Some m \<Rightarrow> m < n)"

text \<open>A property that the object does not have yet takes its place in the enumeration.\<close>

definition add_property :: "'v js_record \<Rightarrow> string \<Rightarrow> 'v \<Rightarrow> 'v js_record" where
  "add_property obj key val =
     (case array_index key of
        None \<Rightarrow> obj @ [(key, val)]
      | Some n \<Rightarrow> takeWhile (index_below n) obj @ (key, val) # dropWhile (index_below n) obj)"

text \<open>
  \<^verbatim>\<open>obj[key] = val\<close>, and \<^verbatim>\<open>Vue.set(obj, key, val)\<close>, which assigns reactively: an existing
  property keeps its place and gets the value, a new one is added. \<^verbatim>\<open>Vue.delete\<close> removes
  the property.
\<close>

definition assign :: "'v js_record \<Rightarrow> string \<Rightarrow> 'v \<Rightarrow> 'v js_record" where
  "assign obj key val =
     (if map_of obj key = None then add_property obj key val else AList.update key val obj)"

definition Vue_set :: "'v js_record \<Rightarrow> string \<Rightarrow> 'v \<Rightarrow> 'v js_record" where
  "Vue_set obj key val = assign obj key val"

definition Vue_delete :: "'v js_record \<Rightarrow> string \<Rightarrow> 'v js_record" where
  "Vue_delete obj key = AList.delete key obj"

text \<open>
  A read \<^verbatim>\<open>obj[key]\<close> goes through the prototype chain: where the object has no own
  property \<^verbatim>\<open>key\<close>, it finds the member of that name that every object inherits from
  \<^verbatim>\<open>Object.prototype\<close>, if there is one, and \<^verbatim>\<open>undefined\<close> otherwise. The inherited
  members are functions, and \<^verbatim>\<open>__proto__\<close> the prototype itself: none is \<^verbatim>\<open>undefined\<close>.
\<close>

definition Object_prototype :: "string list" where
  "Object_prototype =
     [''constructor'', ''__defineGetter__'', ''__defineSetter__'', ''hasOwnProperty'',
      ''__lookupGetter__'', ''__lookupSetter__'', ''isPrototypeOf'', ''propertyIsEnumerable'',
      ''toString'', ''valueOf'', ''__proto__'', ''toLocaleString'']"

text \<open>\<^verbatim>\<open>obj[key] !== undefined\<close>, for an object whose own values are never \<^verbatim>\<open>undefined\<close>.\<close>

definition is_defined :: "'v js_record \<Rightarrow> string \<Rightarrow> bool" where
  "is_defined obj key =
     (case map_of obj key of Some v \<Rightarrow> True | None \<Rightarrow> key \<in> set Object_prototype)"

text \<open>The store's \<^verbatim>\<open>State\<close>, and the effect log.\<close>

record state =
  rooms :: "conversation js_record js_record"
  effects :: "event list"

definition initial_state :: state where
  "initial_state = \<lparr>rooms = [], effects = []\<rparr>"

text \<open>
  The HTTP client the service functions call is the imported \<^verbatim>\<open>@nextcloud/axios\<close>, which
  is not part of these sources. One call of it, for a request, is taken as given: the
  outcome with which the returned promise settles, and the requests the client sent to
  the server on behalf of that call, in order. An outcome \<open>Inr x\<close> stands for the inner
  payload \<^verbatim>\<open>data.ocs.data\<close> of the response envelope, the only part of a response the
  store reads.
\<close>

type_synonym 'r client = "request \<Rightarrow> (error + 'r) \<times> request list"

text \<open>
  What the two modules import and this development takes as given: the constant
  \<^verbatim>\<open>CONVERSATION.OBJECT_TYPE.BREAKOUT_ROOM\<close> of \<^verbatim>\<open>../constants.js\<close>, and the client with
  the server behind it, typed as the store consumes each endpoint's
  \<^verbatim>\<open>response.data.ocs.data\<close>: conversations for the seven endpoints whose reply goes to
  \<^verbatim>\<open>processConversations\<close> unchanged, one breakout room for the two assistance endpoints
  (the store reads its \<^verbatim>\<open>objectId\<close>), participants, and a reply the store ignores.
\<close>

record env =
  BREAKOUT_ROOM :: string
  conversations_reply :: "conversationOrArray client"
  room_reply :: "conversation client"
  participants_reply :: "participant list client"
  broadcast_reply :: "unit client"

subsection \<open>Asynchronous code\<close>

type_synonym 'a async = "state \<Rightarrow> (error + 'a) \<times> state"

text \<open>\<^verbatim>\<open>await m\<close> followed by the rest of the function body; a rejection skips the rest.\<close>

definition await :: "'a async \<Rightarrow> ('a \<Rightarrow> 'b async) \<Rightarrow> 'b async" where
  "await m f s = (case m s of (Inl e, s') \<Rightarrow> (Inl e, s') | (Inr x, s') \<Rightarrow> f x s')"

text \<open>A synchronous statement, which cannot fail.\<close>

definition run :: "(state \<Rightarrow> state) \<Rightarrow> unit async" where
  "run f s = (Inr (), f s)"

text \<open>\<^verbatim>\<open>try { body } catch (error) { handler }\<close>\<close>

definition try_catch :: "unit async \<Rightarrow> (error \<Rightarrow> unit async) \<Rightarrow> unit async" where
  "try_catch body handler s =
     (case body s of (Inl e, s') \<Rightarrow> handler e s' | (Inr x, s') \<Rightarrow> (Inr x, s'))"

definition log_effect :: "event \<Rightarrow> state \<Rightarrow> state" where
  "log_effect ev s = s\<lparr>effects := effects s @ [ev]\<rparr>"

definition store_dispatch :: "event \<Rightarrow> state \<Rightarrow> state" where
  "store_dispatch ev s = log_effect ev s"

definition emit :: "string \<Rightarrow> string \<Rightarrow> state \<Rightarrow> state" where
  "emit name arg s = log_effect (Emit name arg) s"

definition console_error :: "error \<Rightarrow> state \<Rightarrow> state" where
  "console_error e s = log_effect (Console_error e) s"

definition showError :: "l10n \<Rightarrow> state \<Rightarrow> state" where
  "showError msg s = log_effect (ShowError msg) s"

text \<open>
  One call of \<^verbatim>\<open>axios.post\<close>, \<^verbatim>\<open>axios.get\<close> or \<^verbatim>\<open>axios.delete\<close>: what the client sends
  for it is logged, and the promise settles with the client's outcome.
\<close>

definition axios :: "'r client \<Rightarrow> request \<Rightarrow> 'r async" where
  "axios client req s =
     (fst (client req), s\<lparr>effects := effects s @ map HttpRequest (snd (client req))\<rparr>)"

definition axios_post :: "'r client \<Rightarrow> url \<Rightarrow> (string \<times> json) list option \<Rightarrow> 'r async" where
  "axios_post client u b = axios client \<lparr>http_method = POST, url = u, payload = b\<rparr>"

definition axios_get :: "'r client \<Rightarrow> url \<Rightarrow> 'r async" where
  "axios_get client u = axios client \<lparr>http_method = GET, url = u, payload = None\<rparr>"

definition axios_delete :: "'r client \<Rightarrow> url \<Rightarrow> 'r async" where
  "axios_delete client u = axios client \<lparr>http_method = DELETE, url = u, payload = None\<rparr>"

subsection \<open>The service functions\<close>

text \<open>
  Each function takes the client as its first argument; the others are those of the
  source. \<^verbatim>\<open>mode\<close> (typed \<^verbatim>\<open>0 | 1 | 2 | 3\<close>) and \<^verbatim>\<open>amount\<close> (a \<^verbatim>\<open>number\<close>) are integers,
  passed on as they are; the optional \<^verbatim>\<open>attendeeMap\<close> is sent as \<^verbatim>\<open>undefined\<close> when absent.
\<close>

definition optional_string :: "string option \<Rightarrow> json" where
  "optional_string x = (case x of None \<Rightarrow> Undefined | Some v \<Rightarrow> Str v)"

definition configureBreakoutRooms_service ::
  "'r client \<Rightarrow> string \<Rightarrow> int \<Rightarrow> int \<Rightarrow> string option \<Rightarrow> 'r async" where
  "configureBreakoutRooms_service client tok mode amount attendeeMap =
     axios_post client (generateOcsUrl ''/apps/spreed/api/v1/breakout-rooms/{token}'' tok)
       (Some [(''mode'', Num mode), (''amount'', Num amount),
              (''attendeeMap'', optional_string attendeeMap)])"

definition reorganizeAttendees_service ::
  "'r client \<Rightarrow> string \<Rightarrow> string \<Rightarrow> 'r async" where
  "reorganizeAttendees_service client tok attendeeMap =
     axios_post client (generateOcsUrl ''/apps/spreed/api/v1/breakout-rooms/{token}/attendees'' tok)
       (Some [(''attendeeMap'', Str attendeeMap)])"

definition deleteBreakoutRooms_service :: "'r client \<Rightarrow> string \<Rightarrow> 'r async" where
  "deleteBreakoutRooms_service client tok =
     axios_delete client (generateOcsUrl ''/apps/spreed/api/v1/breakout-rooms/{token}'' tok)"

definition getBreakoutRooms_service :: "'r client \<Rightarrow> string \<Rightarrow> 'r async" where
  "getBreakoutRooms_service client tok =
     axios_get client (generateOcsUrl ''/apps/spreed/api/v4/room/{token}/breakout-rooms'' tok)"

definition startBreakoutRooms_service :: "'r client \<Rightarrow> string \<Rightarrow> 'r async" where
  "startBreakoutRooms_service client tok =
     axios_post client (generateOcsUrl ''/apps/spreed/api/v1/breakout-rooms/{token}/rooms'' tok) None"

definition stopBreakoutRooms_service :: "'r client \<Rightarrow> string \<Rightarrow> 'r async" where
  "stopBreakoutRooms_service client tok =
     axios_delete client (generateOcsUrl ''/apps/spreed/api/v1/breakout-rooms/{token}/rooms'' tok)"

definition broadcastMessageToBreakoutRooms_service ::
  "'r client \<Rightarrow> string \<Rightarrow> string \<Rightarrow> 'r async" where
  "broadcastMessageToBreakoutRooms_service client tok message =
     axios_post client (generateOcsUrl ''/apps/spreed/api/v1/breakout-rooms/{token}/broadcast'' tok)
       (Some [(''message'', Str message)])"

definition getBreakoutRoomsParticipants_service ::
  "'r client \<Rightarrow> string \<Rightarrow> 'r async" where
  "getBreakoutRoomsParticipants_service client tok =
     axios_get client
       (generateOcsUrl ''/apps/spreed/api/v4/room/{token}/breakout-rooms/participants'' tok)"

definition requestAssistance_service :: "'r client \<Rightarrow> string \<Rightarrow> 'r async" where
  "requestAssistance_service client tok =
     axios_post client
       (generateOcsUrl ''/apps/spreed/api/v1/breakout-rooms/{token}/request-assistance'' tok) None"

definition resetRequestAssistance_service :: "'r client \<Rightarrow> string \<Rightarrow> 'r async" where
  "resetRequestAssistance_service client tok =
     axios_delete client
       (generateOcsUrl ''/apps/spreed/api/v1/breakout-rooms/{token}/request-assistance'' tok)"

definition switchToBreakoutRoom_service ::
  "'r client \<Rightarrow> string \<Rightarrow> string \<Rightarrow> 'r async" where
  "switchToBreakoutRoom_service client tok target =
     axios_post client (generateOcsUrl ''/apps/spreed/api/v1/breakout-rooms/{token}/switch'' tok)
       (Some [(''target'', Str target)])"

subsection \<open>The store: getters\<close>

text \<open>\<^verbatim>\<open>Object(state.rooms[token])\<close>: the object stored under the key, or a fresh empty object.\<close>

definition rooms_of :: "state \<Rightarrow> string \<Rightarrow> conversation js_record" where
  "rooms_of s tok = (case map_of (rooms s) tok of None \<Rightarrow> [] | Some inner \<Rightarrow> inner)"

definition breakoutRooms :: "state \<Rightarrow> string \<Rightarrow> conversation list" where
  "breakoutRooms s tok = map snd (rooms_of s tok)"

text \<open>
  \<^verbatim>\<open>state.rooms[parentRoomToken]?.[token] !== undefined\<close>, for the parent tokens in
  enumeration order; \<open>None\<close> is \<^verbatim>\<open>undefined\<close>, returned when the loop ends. The loop
  variable is an own key of \<^verbatim>\<open>rooms\<close>, so the first read yields the mapping stored under
  it. The second read, of \<^verbatim>\<open>token\<close> in that mapping, goes through the prototype chain.
\<close>

definition getParentRoomToken :: "state \<Rightarrow> string \<Rightarrow> string option" where
  "getParentRoomToken s tok =
     find (\<lambda>parentRoomToken.
             case map_of (rooms s) parentRoomToken of
               None \<Rightarrow> False
             | Some inner \<Rightarrow> is_defined inner tok)
          (map fst (rooms s))"

subsection \<open>The store: synchronous actions\<close>

text \<open>
  The parent token of \<^verbatim>\<open>addBreakoutRoom\<close> is a conversation token that the server has
  issued: every caller in the store passes the token of a request the server has just
  answered, or the \<^verbatim>\<open>objectId\<close> of a room in its reply. Such a token is taken not to
  name a member of \<^verbatim>\<open>Object.prototype\<close>, so the read \<^verbatim>\<open>this.rooms[token]\<close> finds an own
  property or nothing, and \<^verbatim>\<open>!this.rooms[token]\<close> holds exactly when there is no such key.
  (For a token naming an inherited member the code would create no key and would write
  the room onto the inherited object, outside the store; that case is not modelled.)
  The same holds of \<^verbatim>\<open>participant.roomToken\<close> in \<^verbatim>\<open>fetchBreakoutRoomsParticipants\<close>.

  The second \<^verbatim>\<open>Vue.set\<close> mutates the object that \<^verbatim>\<open>this.rooms[token]\<close> refers to; no
  other reference to that object exists, so the mutation is an update, in place, of the
  value stored under \<^verbatim>\<open>token\<close>. After the first statement the key exists: the \<open>None\<close>
  branch is never taken.
\<close>

definition addBreakoutRoom :: "string \<Rightarrow> conversation \<Rightarrow> state \<Rightarrow> state" where
  "addBreakoutRoom tok breakoutRoom s =
     (let s1 = (if map_of (rooms s) tok = None
                then s\<lparr>rooms := Vue_set (rooms s) tok []\<rparr> else s)
      in case map_of (rooms s1) tok of
           None \<Rightarrow> s1
         | Some inner \<Rightarrow>
             s1\<lparr>rooms := Vue_set (rooms s1) tok (Vue_set inner (token breakoutRoom) breakoutRoom)\<rparr>)"

definition to_array :: "conversationOrArray \<Rightarrow> conversation list" where
  "to_array conversationOrArray =
     (case conversationOrArray of Single c \<Rightarrow> [c] | Array cs \<Rightarrow> cs)"

definition processConversations :: "env \<Rightarrow> string \<Rightarrow> conversationOrArray \<Rightarrow> state \<Rightarrow> state" where
  "processConversations E tok conversationOrArray s =
     (let conversations = to_array conversationOrArray;
          s1 = foldl (\<lambda>s' conversation.
                        if objectType conversation = BREAKOUT_ROOM E
                        then addBreakoutRoom tok conversation s' else s')
                     s conversations
      in store_dispatch (Dispatch_patchConversations conversations) s1)"

definition purgeBreakoutRoomsStore :: "string \<Rightarrow> state \<Rightarrow> state" where
  "purgeBreakoutRoomsStore tok s =
     (let s1 = foldl (\<lambda>s' roomToken. store_dispatch (Dispatch_deleteConversation roomToken) s')
                     s (map fst (rooms_of s tok))
      in s1\<lparr>rooms := Vue_delete (rooms s1) tok\<rparr>)"

subsection \<open>The store: asynchronous actions\<close>

text \<open>
  The accumulator of the \<^verbatim>\<open>reduce\<close> in \<^verbatim>\<open>fetchBreakoutRoomsParticipants\<close>: the list under
  \<^verbatim>\<open>participant.roomToken\<close> is created when missing, then the participant is pushed.
\<close>

definition split_step :: "participant list js_record \<Rightarrow> participant \<Rightarrow> participant list js_record" where
  "split_step acc p =
     (let acc1 = (if map_of acc (roomToken p) = None then assign acc (roomToken p) [] else acc)
      in case map_of acc1 (roomToken p) of
           None \<Rightarrow> acc1
         | Some ps \<Rightarrow> assign acc1 (roomToken p) (ps @ [p]))"

definition fetchBreakoutRoomsParticipants :: "env \<Rightarrow> string \<Rightarrow> unit async" where
  "fetchBreakoutRoomsParticipants E tok =
     try_catch
       (await (getBreakoutRoomsParticipants_service (participants_reply E) tok) (\<lambda>response.
        run (\<lambda>s. let splittedParticipants = foldl split_step [] response
                 in foldl (\<lambda>s' (tok', newParticipants).
                             store_dispatch (Dispatch_patchParticipants tok' newParticipants False) s')
                          s splittedParticipants)))
       (\<lambda>error. run (console_error error))"

definition configureBreakoutRooms ::
  "env \<Rightarrow> string \<Rightarrow> int \<Rightarrow> int \<Rightarrow> string option \<Rightarrow> unit async" where
  "configureBreakoutRooms E tok mode amount attendeeMap =
     try_catch
       (await (configureBreakoutRooms_service (conversations_reply E) tok mode amount attendeeMap)
          (\<lambda>response.
        await (run (processConversations E tok response)) (\<lambda>_.
        await (fetchBreakoutRoomsParticipants E tok) (\<lambda>_.
        await (run (emit ''spreed:select-active-sidebar-tab'' ''breakout-rooms'')) (\<lambda>_.
        run (store_dispatch Dispatch_showSidebar))))))
       (\<lambda>error.
        await (run (console_error error)) (\<lambda>_.
        run (showError (Translated ''spreed'' ''An error occurred while creating breakout rooms''))))"

definition reorganizeAttendees :: "env \<Rightarrow> string \<Rightarrow> string \<Rightarrow> unit async" where
  "reorganizeAttendees E tok attendeeMap =
     try_catch
       (await (reorganizeAttendees_service (conversations_reply E) tok attendeeMap) (\<lambda>response.
        await (run (processConversations E tok response)) (\<lambda>_.
        fetchBreakoutRoomsParticipants E tok)))
       (\<lambda>error.
        await (run (console_error error)) (\<lambda>_.
        run (showError (Translated ''spreed'' ''An error occurred while re-ordering the attendees''))))"

definition deleteBreakoutRooms :: "env \<Rightarrow> string \<Rightarrow> unit async" where
  "deleteBreakoutRooms E tok =
     try_catch
       (await (deleteBreakoutRooms_service (conversations_reply E) tok) (\<lambda>response.
        await (run (processConversations E tok response)) (\<lambda>_.
        run (purgeBreakoutRoomsStore tok))))
       (\<lambda>error.
        await (run (console_error error)) (\<lambda>_.
        run (showError (Translated ''spreed'' ''An error occurred while deleting breakout rooms''))))"

definition getBreakoutRooms :: "env \<Rightarrow> string \<Rightarrow> unit async" where
  "getBreakoutRooms E tok =
     try_catch
       (await (getBreakoutRooms_service (conversations_reply E) tok) (\<lambda>response.
        run (processConversations E tok response)))
       (\<lambda>error. run (console_error error))"

definition startBreakoutRooms :: "env \<Rightarrow> string \<Rightarrow> unit async" where
  "startBreakoutRooms E tok =
     try_catch
       (await (startBreakoutRooms_service (conversations_reply E) tok) (\<lambda>response.
        run (processConversations E tok response)))
       (\<lambda>error.
        await (run (console_error error)) (\<lambda>_.
        run (showError (Translated ''spreed'' ''An error occurred while starting breakout rooms''))))"

definition stopBreakoutRooms :: "env \<Rightarrow> string \<Rightarrow> unit async" where
  "stopBreakoutRooms E tok =
     try_catch
       (await (stopBreakoutRooms_service (conversations_reply E) tok) (\<lambda>response.
        run (processConversations E tok response)))
       (\<lambda>error.
        await (run (console_error error)) (\<lambda>_.
        run (showError (Translated ''spreed'' ''An error occurred while stopping breakout rooms''))))"

definition broadcastMessageToBreakoutRooms :: "env \<Rightarrow> string \<Rightarrow> string \<Rightarrow> unit async" where
  "broadcastMessageToBreakoutRooms E tok message =
     try_catch
       (await (broadcastMessageToBreakoutRooms_service (broadcast_reply E) tok message) (\<lambda>_.
        run (\<lambda>s. s)))
       (\<lambda>error.
        await (run (console_error error)) (\<lambda>_.
        run (showError
               (Translated ''spreed'' ''An error occurred while sending a message to the breakout rooms''))))"

definition requestAssistance :: "env \<Rightarrow> string \<Rightarrow> unit async" where
  "requestAssistance E tok =
     try_catch
       (await (requestAssistance_service (room_reply E) tok) (\<lambda>response.
        let parentToken = objectId response
        in run (processConversations E parentToken (Single response))))
       (\<lambda>error.
        await (run (console_error error)) (\<lambda>_.
        run (showError (Translated ''spreed'' ''An error occurred while requesting assistance''))))"

definition dismissRequestAssistance :: "env \<Rightarrow> string \<Rightarrow> unit async" where
  "dismissRequestAssistance E tok =
     try_catch
       (await (resetRequestAssistance_service (room_reply E) tok) (\<lambda>response.
        let parentToken = objectId response
        in run (processConversations E parentToken (Single response))))
       (\<lambda>error.
        await (run (console_error error)) (\<lambda>_.
        run (showError
               (Translated ''spreed'' ''An error occurred while resetting the request for assistance''))))"

definition switchToBreakoutRoom :: "env \<Rightarrow> string \<Rightarrow> string \<Rightarrow> unit async" where
  "switchToBreakoutRoom E tok target =
     try_catch
       (await (switchToBreakoutRoom_service (conversations_reply E) tok target) (\<lambda>response.
        run (processConversations E tok response)))
       (\<lambda>error.
        await (run (console_error error)) (\<lambda>_.
        run (showError (Translated ''spreed'' ''An error occurred while joining breakout room''))))"

subsection \<open>Well-formed states and sample values\<close>

text \<open>
  An object has each key once, and \<^verbatim>\<open>addBreakoutRoom\<close> files a room under its own token.
  On the list representation this is a property to be maintained.
\<close>

definition rooms_inv :: "state \<Rightarrow> bool" where
  "rooms_inv s =
     (distinct (map fst (rooms s)) \<and>
      list_all (\<lambda>(parent, inner).
                  distinct (map fst inner) \<and> list_all (\<lambda>(key, room). token room = key) inner)
               (rooms s))"

definition is_breakout_room :: "env \<Rightarrow> conversation \<Rightarrow> bool" where
  "is_breakout_room E c = (objectType c = BREAKOUT_ROOM E)"

text \<open>
  Sample data: a parent conversation, breakout rooms of it, and clients: one that sends
  each request once and settles with a fixed outcome, and one that sends each request
  twice before it settles, as \<^verbatim>\<open>@nextcloud/axios\<close> does when the first reply is a 412
  (it then fetches a fresh request token and repeats the request).
\<close>

definition once :: "error + 'r \<Rightarrow> 'r client" where
  "once r req = (r, [req])"

definition repeated :: "error + 'r \<Rightarrow> 'r client" where
  "repeated r req = (r, [req, req])"

definition parent_conversation :: conversation where
  "parent_conversation = \<lparr>token = ''parent'', objectType = [], objectId = []\<rparr>"

definition room_a :: conversation where
  "room_a = \<lparr>token = ''a'', objectType = ''room'', objectId = ''parent''\<rparr>"

text \<open>Room \<open>a\<close> again, with other content.\<close>

definition room_a_updated :: conversation where
  "room_a_updated = \<lparr>token = ''a'', objectType = ''room'', objectId = ''parent-2''\<rparr>"

definition room_b :: conversation where
  "room_b = \<lparr>token = ''b'', objectType = ''room'', objectId = ''parent''\<rparr>"

definition one_room_state :: state where
  "one_room_state = \<lparr>rooms = [(''parent'', [(''a'', room_a)])], effects = []\<rparr>"

definition replying :: "error + conversationOrArray \<Rightarrow> env" where
  "replying r =
     \<lparr>BREAKOUT_ROOM = ''room'',
      conversations_reply = once r,
      room_reply = once (Inr room_b),
      participants_reply = once (Inr []),
      broadcast_reply = once (Inr ())\<rparr>"

definition offline :: env where
  "offline =
     \<lparr>BREAKOUT_ROOM = ''room'',
      conversations_reply = once (Inl NetworkError),
      room_reply = once (Inl NetworkError),
      participants_reply = once (Inl NetworkError),
      broadcast_reply = once (Inl NetworkError)\<rparr>"

text \<open>The effects that are toasts.\<close>

fun is_toast :: "event \<Rightarrow> bool" where
  "is_toast (ShowError m) = True"
| "is_toast ev = False"

section \<open>Auxiliary facts\<close>

lemmas async_defs = try_catch_def await_def run_def axios_def axios_post_def axios_get_def
  axios_delete_def

lemmas effect_defs = log_effect_def store_dispatch_def emit_def console_error_def showError_def

lemmas service_defs = configureBreakoutRooms_service_def reorganizeAttendees_service_def
  deleteBreakoutRooms_service_def getBreakoutRooms_service_def startBreakoutRooms_service_def
  stopBreakoutRooms_service_def broadcastMessageToBreakoutRooms_service_def
  getBreakoutRoomsParticipants_service_def requestAssistance_service_def
  resetRequestAssistance_service_def switchToBreakoutRoom_service_def

lemmas sample_defs = parent_conversation_def room_a_def room_a_updated_def room_b_def
  one_room_state_def replying_def offline_def initial_state_def once_def

subsection \<open>Objects\<close>

lemma map_of_None_keys: "map_of obj k = None \<longleftrightarrow> k \<notin> set (map fst obj)"
  by (simp add: map_of_eq_None_iff)

lemma add_property_split:
  "\<exists>xs ys. obj = xs @ ys \<and> add_property obj k v = xs @ (k, v) # ys"
proof (cases "array_index k")
  case None
  then have "obj = obj @ [] \<and> add_property obj k v = obj @ (k, v) # []"
    by (simp add: add_property_def)
  then show ?thesis by blast
next
  case (Some n)
  then have "obj = takeWhile (index_below n) obj @ dropWhile (index_below n) obj
      \<and> add_property obj k v =
          takeWhile (index_below n) obj @ (k, v) # dropWhile (index_below n) obj"
    by (simp add: add_property_def)
  then show ?thesis by blast
qed

lemma assign_cases:
  obtains (existing) "map_of obj k \<noteq> None" "assign obj k v = AList.update k v obj"
  | (new) xs ys where "map_of obj k = None" "obj = xs @ ys" "assign obj k v = xs @ (k, v) # ys"
proof (cases "map_of obj k")
  case None
  obtain xs ys where split: "obj = xs @ ys" "add_property obj k v = xs @ (k, v) # ys"
    using add_property_split [of obj k v] by (elim exE conjE)
  have "assign obj k v = add_property obj k v"
    by (simp only: assign_def None refl if_True)
  then have "assign obj k v = xs @ (k, v) # ys"
    by (simp only: split(2))
  with None split(1) show ?thesis
    by (rule new)
next
  case (Some a)
  then have "map_of obj k \<noteq> None" and "assign obj k v = AList.update k v obj"
    by (simp_all add: assign_def)
  then show ?thesis
    by (rule existing)
qed

lemma map_of_assign: "map_of (assign obj k v) = (map_of obj)(k \<mapsto> v)"
proof (cases rule: assign_cases [of obj k v])
  case existing
  then show ?thesis by (simp add: update_conv')
next
  case (new xs ys)
  from new(1,2) have "map_of xs k = None"
    by simp
  then show ?thesis
    by (simp only: new(3)) (auto simp add: new(2) fun_eq_iff map_add_def split: option.splits)
qed

lemma key_set_assign: "fst ` set (assign obj k v) = insert k (fst ` set obj)"
proof (cases rule: assign_cases [of obj k v])
  case existing
  then show ?thesis by (simp add: dom_update)
next
  case (new xs ys)
  show ?thesis
    by (simp only: new(3)) (auto simp add: new(2))
qed

lemma length_assign:
  "length (assign obj k v) = (if k \<in> set (map fst obj) then length obj else Suc (length obj))"
proof (cases rule: assign_cases [of obj k v])
  case existing
  then have k: "k \<in> set (map fst obj)"
    by (simp add: map_of_None_keys)
  then have "length (map fst (AList.update k v obj)) = length obj"
    by (simp only: update_keys if_True length_map)
  with existing k show ?thesis
    by simp
next
  case (new xs ys)
  from new(1) have "k \<notin> set (map fst obj)"
    by (simp add: map_of_None_keys)
  then show ?thesis
    by (simp only: new(3)) (simp add: new(2))
qed

lemma distinct_assign:
  assumes "distinct (map fst obj)"
  shows "distinct (map fst (assign obj k v))"
proof (cases rule: assign_cases [of obj k v])
  case existing
  with assms show ?thesis by (simp add: distinct_update)
next
  case (new xs ys)
  from new(1) have "k \<notin> set (map fst obj)"
    by (simp add: map_of_None_keys)
  with assms show ?thesis
    by (simp only: new(3)) (auto simp add: new(2))
qed

lemma list_all_update:
  "list_all Q al \<Longrightarrow> Q (k, v) \<Longrightarrow> list_all Q (AList.update k v al)"
  by (induction al) auto

lemma list_all_assign:
  assumes "list_all Q obj" and "Q (k, v)"
  shows "list_all Q (assign obj k v)"
proof (cases rule: assign_cases [of obj k v])
  case existing
  with assms show ?thesis by (simp add: list_all_update)
next
  case (new xs ys)
  with assms show ?thesis
    by (simp only: new(3)) (simp add: new(2))
qed

lemma map_of_Vue_set: "map_of (Vue_set obj k v) = (map_of obj)(k \<mapsto> v)"
  by (simp add: Vue_set_def map_of_assign)

lemma key_set_Vue_set: "fst ` set (Vue_set obj k v) = insert k (fst ` set obj)"
  by (simp add: Vue_set_def key_set_assign)

lemma length_Vue_set:
  "length (Vue_set obj k v) = (if k \<in> set (map fst obj) then length obj else Suc (length obj))"
  by (simp only: Vue_set_def length_assign)

lemma distinct_Vue_set:
  "distinct (map fst obj) \<Longrightarrow> distinct (map fst (Vue_set obj k v))"
  by (simp add: Vue_set_def distinct_assign)

lemma list_all_Vue_set:
  "list_all Q obj \<Longrightarrow> Q (k, v) \<Longrightarrow> list_all Q (Vue_set obj k v)"
  by (simp add: Vue_set_def list_all_assign)

text \<open>The sample keys are no array indices; two keys that are.\<close>

lemma sample_keys:
  "array_index ''a'' = None" "array_index ''b'' = None" "array_index ''parent'' = None"
  by (simp_all add: array_index_def is_digit_def)

lemma Vue_set_array_index:
  "Vue_set [(''10'', x), (''b'', y)] ''9'' z = [(''9'', z), (''10'', x), (''b'', y)]"
  by (simp add: Vue_set_def assign_def add_property_def array_index_def index_below_def
      is_digit_def decimal_def)

subsection \<open>\<^verbatim>\<open>addBreakoutRoom\<close> and the loop of \<^verbatim>\<open>processConversations\<close>\<close>

lemma effects_addBreakoutRoom: "effects (addBreakoutRoom T b s) = effects s"
  by (simp add: addBreakoutRoom_def Let_def map_of_Vue_set split: option.splits)

lemma rooms_of_addBreakoutRoom:
  "rooms_of (addBreakoutRoom T b s) T' =
     (if T' = T then Vue_set (rooms_of s T) (token b) b else rooms_of s T')"
  by (auto simp add: addBreakoutRoom_def rooms_of_def Let_def map_of_Vue_set split: option.splits)

lemma effects_foldl_add:
  "effects (foldl (\<lambda>s' c. if objectType c = B then addBreakoutRoom T c s' else s') s cs) = effects s"
  by (induction cs arbitrary: s) (simp_all add: effects_addBreakoutRoom)

lemma rooms_of_foldl_add:
  "rooms_of (foldl (\<lambda>s' c. if objectType c = B then addBreakoutRoom T c s' else s') s cs) T' =
     (if T' = T
      then foldl (\<lambda>m c. if objectType c = B then Vue_set m (token c) c else m) (rooms_of s T) cs
      else rooms_of s T')"
  by (induction cs arbitrary: s) (simp_all add: rooms_of_addBreakoutRoom)

lemma foldl_if_filter:
  "foldl (\<lambda>m c. if P c then f m c else m) m0 cs = foldl f m0 (filter P cs)"
  by (induction cs arbitrary: m0) simp_all

lemma map_of_foldl_set:
  "map_of (foldl (\<lambda>m c. Vue_set m (token c) c) m0 cs) =
     map_of m0 ++ map_of (rev (map (\<lambda>c. (token c, c)) cs))"
  by (induction cs arbitrary: m0) (simp_all add: map_of_Vue_set map_add_upd_left)

lemma rooms_of_processConversations:
  "rooms_of (processConversations E T d s) T' =
     (if T' = T
      then foldl (\<lambda>m c. Vue_set m (token c) c) (rooms_of s T)
             (filter (is_breakout_room E) (to_array d))
      else rooms_of s T')"
proof -
  have "rooms_of (processConversations E T d s) T' =
        rooms_of (foldl (\<lambda>s' c. if objectType c = BREAKOUT_ROOM E
                                 then addBreakoutRoom T c s' else s') s (to_array d)) T'"
    by (simp add: processConversations_def Let_def rooms_of_def effect_defs)
  also have "\<dots> = (if T' = T
      then foldl (\<lambda>m c. if is_breakout_room E c then Vue_set m (token c) c else m)
             (rooms_of s T) (to_array d)
      else rooms_of s T')"
    by (simp add: rooms_of_foldl_add is_breakout_room_def)
  finally show ?thesis
    by (simp add: foldl_if_filter)
qed

lemma effects_processConversations:
  "effects (processConversations E T d s) =
     effects s @ [Dispatch_patchConversations (to_array d)]"
  by (simp add: processConversations_def Let_def effect_defs effects_foldl_add)

subsection \<open>Each asynchronous action, when its request fails and when it succeeds\<close>

lemma rooms_log_effect: "rooms (log_effect ev s) = rooms s"
  by (simp add: log_effect_def)

lemma try_await_failure:
  "fst (m s) = Inl e \<Longrightarrow> try_catch (await m f) h s = h e (snd (m s))"
  by (cases "m s") (simp add: try_catch_def await_def)

lemma try_await_success:
  "fst (m s) = Inr x \<Longrightarrow> try_catch (await m f) h s = try_catch (f x) h (snd (m s))"
  by (cases "m s") (simp add: try_catch_def await_def)

lemma try_run: "try_catch (run g) h s = (Inr (), g s)"
  by (simp add: try_catch_def run_def)

lemma await_run: "await (run g) f s = f () (g s)"
  by (simp add: await_def run_def)

lemma rooms_foldl_patchParticipants:
  "rooms (foldl (\<lambda>s' (tok', ps). store_dispatch (Dispatch_patchParticipants tok' ps False) s') s xs)
     = rooms s"
  by (induction xs arbitrary: s) (auto simp add: store_dispatch_def log_effect_def)

lemma service_rooms:
  "rooms (snd (axios client req s)) = rooms s"
  by (simp add: axios_def)

lemma fetchBreakoutRoomsParticipants_failure:
  "fst (getBreakoutRoomsParticipants_service (participants_reply E) T s) = Inl e \<Longrightarrow>
   fetchBreakoutRoomsParticipants E T s =
     (Inr (), console_error e (snd (getBreakoutRoomsParticipants_service (participants_reply E) T s)))"
  by (simp add: fetchBreakoutRoomsParticipants_def try_await_failure run_def)

lemma fetchBreakoutRoomsParticipants_outcome:
  "fst (fetchBreakoutRoomsParticipants E T s) = Inr ()"
  by (simp add: fetchBreakoutRoomsParticipants_def getBreakoutRoomsParticipants_service_def
      async_defs split: sum.splits)

lemma fetchBreakoutRoomsParticipants_rooms:
  "rooms (snd (fetchBreakoutRoomsParticipants E T s)) = rooms s"
  by (simp add: fetchBreakoutRoomsParticipants_def getBreakoutRoomsParticipants_service_def
      async_defs rooms_foldl_patchParticipants console_error_def rooms_log_effect split: sum.splits)

lemma await_fetch:
  "await (fetchBreakoutRoomsParticipants E T) f s = f () (snd (fetchBreakoutRoomsParticipants E T s))"
  using fetchBreakoutRoomsParticipants_outcome [of E T s]
  by (cases "fetchBreakoutRoomsParticipants E T s") (simp add: await_def)

lemma try_await_run: "try_catch (await (run g) f) h s = try_catch (f ()) h (g s)"
  by (simp add: try_catch_def await_def run_def)

lemma try_await_fetch:
  "try_catch (await (fetchBreakoutRoomsParticipants E T) f) h s =
     try_catch (f ()) h (snd (fetchBreakoutRoomsParticipants E T s))"
  using fetchBreakoutRoomsParticipants_outcome [of E T s]
  by (cases "fetchBreakoutRoomsParticipants E T s") (simp add: try_catch_def await_def)

lemma try_fetch:
  "try_catch (fetchBreakoutRoomsParticipants E T) h s = fetchBreakoutRoomsParticipants E T s"
  using fetchBreakoutRoomsParticipants_outcome [of E T s]
  by (cases "fetchBreakoutRoomsParticipants E T s") (simp add: try_catch_def)

lemma configureBreakoutRooms_failure:
  "fst (configureBreakoutRooms_service (conversations_reply E) T mode amount am s) = Inl e \<Longrightarrow>
   configureBreakoutRooms E T mode amount am s =
     (Inr (), showError (Translated ''spreed'' ''An error occurred while creating breakout rooms'')
        (console_error e
          (snd (configureBreakoutRooms_service (conversations_reply E) T mode amount am s))))"
  by (simp add: configureBreakoutRooms_def try_await_failure await_run run_def)

lemma configureBreakoutRooms_success:
  "fst (configureBreakoutRooms_service (conversations_reply E) T mode amount am s) = Inr d \<Longrightarrow>
   configureBreakoutRooms E T mode amount am s =
     (Inr (), store_dispatch Dispatch_showSidebar
        (emit ''spreed:select-active-sidebar-tab'' ''breakout-rooms''
          (snd (fetchBreakoutRoomsParticipants E T
            (processConversations E T d
              (snd (configureBreakoutRooms_service (conversations_reply E) T mode amount am s)))))))"
  by (simp add: configureBreakoutRooms_def try_await_success try_await_run try_await_fetch try_run)

lemma reorganizeAttendees_failure:
  "fst (reorganizeAttendees_service (conversations_reply E) T am s) = Inl e \<Longrightarrow>
   reorganizeAttendees E T am s =
     (Inr (), showError (Translated ''spreed'' ''An error occurred while re-ordering the attendees'')
        (console_error e (snd (reorganizeAttendees_service (conversations_reply E) T am s))))"
  by (simp add: reorganizeAttendees_def try_await_failure await_run run_def)

lemma reorganizeAttendees_success:
  "fst (reorganizeAttendees_service (conversations_reply E) T am s) = Inr d \<Longrightarrow>
   reorganizeAttendees E T am s =
     (Inr (), snd (fetchBreakoutRoomsParticipants E T
        (processConversations E T d
          (snd (reorganizeAttendees_service (conversations_reply E) T am s)))))"
  by (simp add: reorganizeAttendees_def try_await_success try_await_run try_fetch prod_eq_iff
      fetchBreakoutRoomsParticipants_outcome)

lemma deleteBreakoutRooms_failure:
  "fst (deleteBreakoutRooms_service (conversations_reply E) T s) = Inl e \<Longrightarrow>
   deleteBreakoutRooms E T s =
     (Inr (), showError (Translated ''spreed'' ''An error occurred while deleting breakout rooms'')
        (console_error e (snd (deleteBreakoutRooms_service (conversations_reply E) T s))))"
  by (simp add: deleteBreakoutRooms_def try_await_failure await_run run_def)

lemma deleteBreakoutRooms_success:
  "fst (deleteBreakoutRooms_service (conversations_reply E) T s) = Inr d \<Longrightarrow>
   deleteBreakoutRooms E T s =
     (Inr (), purgeBreakoutRoomsStore T
        (processConversations E T d (snd (deleteBreakoutRooms_service (conversations_reply E) T s))))"
  by (simp add: deleteBreakoutRooms_def try_await_success try_await_run try_run)

lemma getBreakoutRooms_failure:
  "fst (getBreakoutRooms_service (conversations_reply E) T s) = Inl e \<Longrightarrow>
   getBreakoutRooms E T s =
     (Inr (), console_error e (snd (getBreakoutRooms_service (conversations_reply E) T s)))"
  by (simp add: getBreakoutRooms_def try_await_failure run_def)

lemma getBreakoutRooms_success:
  "fst (getBreakoutRooms_service (conversations_reply E) T s) = Inr d \<Longrightarrow>
   getBreakoutRooms E T s =
     (Inr (), processConversations E T d (snd (getBreakoutRooms_service (conversations_reply E) T s)))"
  by (simp add: getBreakoutRooms_def try_await_success try_run)

lemma startBreakoutRooms_failure:
  "fst (startBreakoutRooms_service (conversations_reply E) T s) = Inl e \<Longrightarrow>
   startBreakoutRooms E T s =
     (Inr (), showError (Translated ''spreed'' ''An error occurred while starting breakout rooms'')
        (console_error e (snd (startBreakoutRooms_service (conversations_reply E) T s))))"
  by (simp add: startBreakoutRooms_def try_await_failure await_run run_def)

lemma startBreakoutRooms_success:
  "fst (startBreakoutRooms_service (conversations_reply E) T s) = Inr d \<Longrightarrow>
   startBreakoutRooms E T s =
     (Inr (), processConversations E T d (snd (startBreakoutRooms_service (conversations_reply E) T s)))"
  by (simp add: startBreakoutRooms_def try_await_success try_run)

lemma stopBreakoutRooms_failure:
  "fst (stopBreakoutRooms_service (conversations_reply E) T s) = Inl e \<Longrightarrow>
   stopBreakoutRooms E T s =
     (Inr (), showError (Translated ''spreed'' ''An error occurred while stopping breakout rooms'')
        (console_error e (snd (stopBreakoutRooms_service (conversations_reply E) T s))))"
  by (simp add: stopBreakoutRooms_def try_await_failure await_run run_def)

lemma stopBreakoutRooms_success:
  "fst (stopBreakoutRooms_service (conversations_reply E) T s) = Inr d \<Longrightarrow>
   stopBreakoutRooms E T s =
     (Inr (), processConversations E T d (snd (stopBreakoutRooms_service (conversations_reply E) T s)))"
  by (simp add: stopBreakoutRooms_def try_await_success try_run)

lemma broadcastMessageToBreakoutRooms_failure:
  "fst (broadcastMessageToBreakoutRooms_service (broadcast_reply E) T msg s) = Inl e \<Longrightarrow>
   broadcastMessageToBreakoutRooms E T msg s =
     (Inr (), showError
        (Translated ''spreed'' ''An error occurred while sending a message to the breakout rooms'')
        (console_error e
          (snd (broadcastMessageToBreakoutRooms_service (broadcast_reply E) T msg s))))"
  by (simp add: broadcastMessageToBreakoutRooms_def try_await_failure await_run run_def)

lemma broadcastMessageToBreakoutRooms_success:
  "fst (broadcastMessageToBreakoutRooms_service (broadcast_reply E) T msg s) = Inr d \<Longrightarrow>
   broadcastMessageToBreakoutRooms E T msg s =
     (Inr (), snd (broadcastMessageToBreakoutRooms_service (broadcast_reply E) T msg s))"
  by (simp add: broadcastMessageToBreakoutRooms_def try_await_success try_run)

lemma requestAssistance_failure:
  "fst (requestAssistance_service (room_reply E) T s) = Inl e \<Longrightarrow>
   requestAssistance E T s =
     (Inr (), showError (Translated ''spreed'' ''An error occurred while requesting assistance'')
        (console_error e (snd (requestAssistance_service (room_reply E) T s))))"
  by (simp add: requestAssistance_def try_await_failure await_run run_def)

lemma requestAssistance_success:
  "fst (requestAssistance_service (room_reply E) T s) = Inr d \<Longrightarrow>
   requestAssistance E T s =
     (Inr (), processConversations E (objectId d) (Single d)
        (snd (requestAssistance_service (room_reply E) T s)))"
  by (simp add: requestAssistance_def try_await_success try_run Let_def)

lemma dismissRequestAssistance_failure:
  "fst (resetRequestAssistance_service (room_reply E) T s) = Inl e \<Longrightarrow>
   dismissRequestAssistance E T s =
     (Inr (), showError
        (Translated ''spreed'' ''An error occurred while resetting the request for assistance'')
        (console_error e (snd (resetRequestAssistance_service (room_reply E) T s))))"
  by (simp add: dismissRequestAssistance_def try_await_failure await_run run_def)

lemma dismissRequestAssistance_success:
  "fst (resetRequestAssistance_service (room_reply E) T s) = Inr d \<Longrightarrow>
   dismissRequestAssistance E T s =
     (Inr (), processConversations E (objectId d) (Single d)
        (snd (resetRequestAssistance_service (room_reply E) T s)))"
  by (simp add: dismissRequestAssistance_def try_await_success try_run Let_def)

lemma switchToBreakoutRoom_failure:
  "fst (switchToBreakoutRoom_service (conversations_reply E) T target s) = Inl e \<Longrightarrow>
   switchToBreakoutRoom E T target s =
     (Inr (), showError (Translated ''spreed'' ''An error occurred while joining breakout room'')
        (console_error e (snd (switchToBreakoutRoom_service (conversations_reply E) T target s))))"
  by (simp add: switchToBreakoutRoom_def try_await_failure await_run run_def)

lemma switchToBreakoutRoom_success:
  "fst (switchToBreakoutRoom_service (conversations_reply E) T target s) = Inr d \<Longrightarrow>
   switchToBreakoutRoom E T target s =
     (Inr (), processConversations E T d
        (snd (switchToBreakoutRoom_service (conversations_reply E) T target s)))"
  by (simp add: switchToBreakoutRoom_def try_await_success try_run)

lemma service_outcome_cases:
  "(\<exists>e. fst (m s) = Inl e) \<or> (\<exists>d. fst (m s) = Inr d)"
  by (cases "fst (m s)") auto

lemma rooms_console_error: "rooms (console_error e s) = rooms s"
  by (simp add: effect_defs)

lemma rooms_showError: "rooms (showError m s) = rooms s"
  by (simp add: effect_defs)

lemma effects_console_error: "effects (console_error e s) = effects s @ [Console_error e]"
  by (simp add: effect_defs)

lemma effects_showError: "effects (showError m s) = effects s @ [ShowError m]"
  by (simp add: effect_defs)

lemma rooms_services:
  "rooms (snd (configureBreakoutRooms_service sv T mode amount am s)) = rooms s"
  "rooms (snd (reorganizeAttendees_service sv T attendeeMap s)) = rooms s"
  "rooms (snd (deleteBreakoutRooms_service sv T s)) = rooms s"
  "rooms (snd (getBreakoutRooms_service sv T s)) = rooms s"
  "rooms (snd (startBreakoutRooms_service sv T s)) = rooms s"
  "rooms (snd (stopBreakoutRooms_service sv T s)) = rooms s"
  "rooms (snd (broadcastMessageToBreakoutRooms_service sv T message s)) = rooms s"
  "rooms (snd (getBreakoutRoomsParticipants_service sv T s)) = rooms s"
  "rooms (snd (requestAssistance_service sv T s)) = rooms s"
  "rooms (snd (resetRequestAssistance_service sv T s)) = rooms s"
  "rooms (snd (switchToBreakoutRoom_service sv T target s)) = rooms s"
  by (simp_all add: service_defs axios_post_def axios_get_def axios_delete_def service_rooms)

lemma offline_fails:
  "fst (configureBreakoutRooms_service (conversations_reply offline) T mode amount am s) = Inl NetworkError"
  "fst (reorganizeAttendees_service (conversations_reply offline) T attendeeMap s) = Inl NetworkError"
  "fst (deleteBreakoutRooms_service (conversations_reply offline) T s) = Inl NetworkError"
  "fst (getBreakoutRooms_service (conversations_reply offline) T s) = Inl NetworkError"
  "fst (startBreakoutRooms_service (conversations_reply offline) T s) = Inl NetworkError"
  "fst (stopBreakoutRooms_service (conversations_reply offline) T s) = Inl NetworkError"
  "fst (broadcastMessageToBreakoutRooms_service (broadcast_reply offline) T message s) = Inl NetworkError"
  "fst (getBreakoutRoomsParticipants_service (participants_reply offline) T s) = Inl NetworkError"
  "fst (requestAssistance_service (room_reply offline) T s) = Inl NetworkError"
  "fst (resetRequestAssistance_service (room_reply offline) T s) = Inl NetworkError"
  "fst (switchToBreakoutRoom_service (conversations_reply offline) T target s) = Inl NetworkError"
  by (simp_all add: service_defs axios_post_def axios_get_def axios_delete_def axios_def offline_def once_def)

subsection \<open>Purging, and the keys after a merge\<close>

lemma rooms_of_cong: "rooms s = rooms s' \<Longrightarrow> rooms_of s T = rooms_of s' T"
  by (simp add: rooms_of_def)

lemma rooms_inv_cong: "rooms s = rooms s' \<Longrightarrow> rooms_inv s = rooms_inv s'"
  by (simp add: rooms_inv_def)

lemma rooms_foldl_dispatch:
  "rooms (foldl (\<lambda>s' x. store_dispatch (f x) s') s xs) = rooms s"
  by (induction xs arbitrary: s) (simp_all add: effect_defs)


lemma rooms_purgeBreakoutRoomsStore:
  "rooms (purgeBreakoutRoomsStore T s) = Vue_delete (rooms s) T"
  by (simp add: purgeBreakoutRoomsStore_def Let_def rooms_foldl_dispatch)


lemma keys_foldl_set:
  "fst ` set (foldl (\<lambda>m c. Vue_set m (token c) c) m0 cs) = fst ` set m0 \<union> token ` set cs"
  by (induction cs arbitrary: m0) (auto simp add: key_set_Vue_set)

lemma distinct_foldl_set:
  "distinct (map fst m0) \<Longrightarrow> distinct (map fst (foldl (\<lambda>m c. Vue_set m (token c) c) m0 cs))"
  by (induction cs arbitrary: m0) (simp_all add: distinct_Vue_set)

lemma replying_succeeds:
  "fst (configureBreakoutRooms_service (conversations_reply (replying (Inr d))) T mode amount am s) = Inr d"
  "fst (deleteBreakoutRooms_service (conversations_reply (replying (Inr d))) T s) = Inr d"
  by (simp_all add: service_defs axios_post_def axios_get_def axios_delete_def axios_def replying_def once_def)

subsection \<open>The invariant\<close>

lemma map_of_list_all: "list_all Q al \<Longrightarrow> map_of al k = Some v \<Longrightarrow> Q (k, v)"
  by (auto simp add: list_all_iff dest: map_of_SomeD)

lemma rooms_inv_addBreakoutRoom:
  assumes "rooms_inv s"
  shows "rooms_inv (addBreakoutRoom T b s)"
proof (cases "map_of (rooms s) T")
  case None
  with assms show ?thesis
    by (simp add: rooms_inv_def addBreakoutRoom_def Let_def map_of_Vue_set
        distinct_Vue_set list_all_Vue_set)
next
  case (Some inner)
  from assms have "distinct (map fst inner) \<and> list_all (\<lambda>(key, room). token room = key) inner"
    using map_of_list_all [OF _ Some] by (fastforce simp add: rooms_inv_def)
  with assms Some show ?thesis
    by (simp add: rooms_inv_def addBreakoutRoom_def Let_def map_of_Vue_set
        distinct_Vue_set list_all_Vue_set)
qed

lemma rooms_inv_foldl_add:
  "rooms_inv s \<Longrightarrow>
   rooms_inv (foldl (\<lambda>s' c. if objectType c = B then addBreakoutRoom T c s' else s') s cs)"
  by (induction cs arbitrary: s) (simp_all add: rooms_inv_addBreakoutRoom)

lemma rooms_inv_log_effect: "rooms_inv (log_effect ev s) = rooms_inv s"
  by (simp add: rooms_inv_def log_effect_def)

lemma rooms_inv_processConversations:
  "rooms_inv s \<Longrightarrow> rooms_inv (processConversations E T d s)"
  by (simp add: processConversations_def Let_def store_dispatch_def rooms_inv_log_effect
      rooms_inv_foldl_add)

lemma rooms_inv_purgeBreakoutRoomsStore:
  "rooms_inv s \<Longrightarrow> rooms_inv (purgeBreakoutRoomsStore T s)"
  by (simp add: rooms_inv_def rooms_purgeBreakoutRoomsStore Vue_delete_def AList.delete_eq
      distinct_map_filter list_all_iff)

lemma rooms_inv_rooms_of:
  assumes "rooms_inv s"
  shows "distinct (map fst (rooms_of s T)) \<and> map token (breakoutRooms s T) = map fst (rooms_of s T)"
proof (cases "map_of (rooms s) T")
  case None
  then show ?thesis by (simp add: rooms_of_def breakoutRooms_def)
next
  case (Some inner)
  from assms have "distinct (map fst inner) \<and> list_all (\<lambda>(key, room). token room = key) inner"
    using map_of_list_all [OF _ Some] by (fastforce simp add: rooms_inv_def)
  with Some show ?thesis
    by (auto simp add: rooms_of_def breakoutRooms_def list_all_iff)
qed

lemma rooms_configureBreakoutRooms_success:
  "fst (configureBreakoutRooms_service (conversations_reply E) T mode amount am s) = Inr d \<Longrightarrow>
   rooms_of (snd (configureBreakoutRooms E T mode amount am s)) T' =
   rooms_of (processConversations E T d s) T'"
proof -
  assume ok: "fst (configureBreakoutRooms_service (conversations_reply E) T mode amount am s) = Inr d"
  let ?s1 = "snd (configureBreakoutRooms_service (conversations_reply E) T mode amount am s)"
  have "rooms (snd (configureBreakoutRooms E T mode amount am s)) =
        rooms (processConversations E T d ?s1)"
    by (simp add: configureBreakoutRooms_success [OF ok] effect_defs
        fetchBreakoutRoomsParticipants_rooms)
  then have "rooms_of (snd (configureBreakoutRooms E T mode amount am s)) T' =
        rooms_of (processConversations E T d ?s1) T'"
    by (rule rooms_of_cong)
  also have "\<dots> = rooms_of (processConversations E T d s) T'"
    by (simp add: rooms_of_processConversations
        rooms_of_cong [of ?s1 s, OF rooms_services(1)])
  finally show ?thesis .
qed

lemma rooms_inv_effects:
  "rooms_inv (store_dispatch ev s) = rooms_inv s"
  "rooms_inv (emit name arg s) = rooms_inv s"
  "rooms_inv (console_error e s) = rooms_inv s"
  "rooms_inv (showError m s) = rooms_inv s"
  by (simp_all add: effect_defs rooms_inv_def)

lemma rooms_inv_services:
  "rooms_inv (snd (configureBreakoutRooms_service sv T mode amount am s)) = rooms_inv s"
  "rooms_inv (snd (reorganizeAttendees_service sv T attendeeMap s)) = rooms_inv s"
  "rooms_inv (snd (deleteBreakoutRooms_service sv T s)) = rooms_inv s"
  "rooms_inv (snd (getBreakoutRooms_service sv T s)) = rooms_inv s"
  "rooms_inv (snd (startBreakoutRooms_service sv T s)) = rooms_inv s"
  "rooms_inv (snd (stopBreakoutRooms_service sv T s)) = rooms_inv s"
  "rooms_inv (snd (broadcastMessageToBreakoutRooms_service sv T message s)) = rooms_inv s"
  "rooms_inv (snd (getBreakoutRoomsParticipants_service sv T s)) = rooms_inv s"
  "rooms_inv (snd (requestAssistance_service sv T s)) = rooms_inv s"
  "rooms_inv (snd (resetRequestAssistance_service sv T s)) = rooms_inv s"
  "rooms_inv (snd (switchToBreakoutRoom_service sv T target s)) = rooms_inv s"
  by (simp_all add: rooms_inv_def rooms_services)

lemma rooms_inv_fetchBreakoutRoomsParticipants:
  "rooms_inv (snd (fetchBreakoutRoomsParticipants E T s)) = rooms_inv s"
  by (simp add: rooms_inv_def fetchBreakoutRoomsParticipants_rooms)

lemma rooms_inv_configureBreakoutRooms:
  assumes "rooms_inv s"
  shows "rooms_inv (snd (configureBreakoutRooms E T mode amount am s))"
  using assms
    service_outcome_cases [of "configureBreakoutRooms_service (conversations_reply E) T mode amount am" s]
  by (auto simp add: configureBreakoutRooms_failure configureBreakoutRooms_success
      rooms_inv_effects rooms_inv_services rooms_inv_fetchBreakoutRoomsParticipants
      rooms_inv_processConversations)

lemma rooms_inv_reorganizeAttendees:
  assumes "rooms_inv s"
  shows "rooms_inv (snd (reorganizeAttendees E T attendeeMap s))"
  using assms
    service_outcome_cases [of "reorganizeAttendees_service (conversations_reply E) T attendeeMap" s]
  by (auto simp add: reorganizeAttendees_failure reorganizeAttendees_success
      rooms_inv_effects rooms_inv_services rooms_inv_fetchBreakoutRoomsParticipants
      rooms_inv_processConversations)

lemma rooms_inv_deleteBreakoutRooms:
  assumes "rooms_inv s"
  shows "rooms_inv (snd (deleteBreakoutRooms E T s))"
  using assms
    service_outcome_cases [of "deleteBreakoutRooms_service (conversations_reply E) T" s]
  by (auto simp add: deleteBreakoutRooms_failure deleteBreakoutRooms_success
      rooms_inv_effects rooms_inv_services rooms_inv_purgeBreakoutRoomsStore
      rooms_inv_processConversations)

lemma rooms_inv_getBreakoutRooms:
  assumes "rooms_inv s"
  shows "rooms_inv (snd (getBreakoutRooms E T s))"
  using assms
    service_outcome_cases [of "getBreakoutRooms_service (conversations_reply E) T" s]
  by (auto simp add: getBreakoutRooms_failure getBreakoutRooms_success
      rooms_inv_effects rooms_inv_services rooms_inv_processConversations)

lemma rooms_inv_startBreakoutRooms:
  assumes "rooms_inv s"
  shows "rooms_inv (snd (startBreakoutRooms E T s))"
  using assms
    service_outcome_cases [of "startBreakoutRooms_service (conversations_reply E) T" s]
  by (auto simp add: startBreakoutRooms_failure startBreakoutRooms_success
      rooms_inv_effects rooms_inv_services rooms_inv_processConversations)

lemma rooms_inv_stopBreakoutRooms:
  assumes "rooms_inv s"
  shows "rooms_inv (snd (stopBreakoutRooms E T s))"
  using assms
    service_outcome_cases [of "stopBreakoutRooms_service (conversations_reply E) T" s]
  by (auto simp add: stopBreakoutRooms_failure stopBreakoutRooms_success
      rooms_inv_effects rooms_inv_services rooms_inv_processConversations)

lemma rooms_inv_broadcastMessageToBreakoutRooms:
  assumes "rooms_inv s"
  shows "rooms_inv (snd (broadcastMessageToBreakoutRooms E T message s))"
  using assms
    service_outcome_cases [of "broadcastMessageToBreakoutRooms_service (broadcast_reply E) T message" s]
  by (auto simp add: broadcastMessageToBreakoutRooms_failure
      broadcastMessageToBreakoutRooms_success rooms_inv_effects rooms_inv_services)

lemma rooms_inv_requestAssistance:
  assumes "rooms_inv s"
  shows "rooms_inv (snd (requestAssistance E T s))"
  using assms
    service_outcome_cases [of "requestAssistance_service (room_reply E) T" s]
  by (auto simp add: requestAssistance_failure requestAssistance_success
      rooms_inv_effects rooms_inv_services rooms_inv_processConversations)

lemma rooms_inv_dismissRequestAssistance:
  assumes "rooms_inv s"
  shows "rooms_inv (snd (dismissRequestAssistance E T s))"
  using assms
    service_outcome_cases [of "resetRequestAssistance_service (room_reply E) T" s]
  by (auto simp add: dismissRequestAssistance_failure dismissRequestAssistance_success
      rooms_inv_effects rooms_inv_services rooms_inv_processConversations)

lemma rooms_inv_switchToBreakoutRoom:
  assumes "rooms_inv s"
  shows "rooms_inv (snd (switchToBreakoutRoom E T target s))"
  using assms
    service_outcome_cases [of "switchToBreakoutRoom_service (conversations_reply E) T target" s]
  by (auto simp add: switchToBreakoutRoom_failure switchToBreakoutRoom_success
      rooms_inv_effects rooms_inv_services rooms_inv_processConversations)

lemma length_breakoutRooms_addBreakoutRoom:
  "length (breakoutRooms (addBreakoutRoom T b s) T) =
     (if token b \<in> set (map fst (rooms_of s T))
      then length (breakoutRooms s T) else Suc (length (breakoutRooms s T)))"
  by (simp only: breakoutRooms_def length_map rooms_of_addBreakoutRoom refl if_True length_Vue_set)

subsection \<open>The getters\<close>

lemma breakoutRooms_unknown_token:
  "T \<notin> set (map fst (rooms s)) \<Longrightarrow> breakoutRooms s T = []"
proof -
  assume "T \<notin> set (map fst (rooms s))"
  then have "map_of (rooms s) T = None"
    by (simp add: map_of_None_keys)
  then show "breakoutRooms s T = []"
    by (simp add: breakoutRooms_def rooms_of_def)
qed

text \<open>
  \<^verbatim>\<open>getParentRoomToken\<close> returns \<^verbatim>\<open>undefined\<close> exactly when no parent has the token as a
  room token and, unless the store is empty, the token names no inherited member.
\<close>

lemma getParentRoomToken_None_iff:
  "getParentRoomToken s T = None \<longleftrightarrow>
     (\<forall>parentRoomToken. T \<notin> set (map fst (rooms_of s parentRoomToken)))
     \<and> (rooms s = [] \<or> T \<notin> set Object_prototype)"
proof -
  have inner: "\<And>p inner. map_of (rooms s) p = Some inner \<Longrightarrow> rooms_of s p = inner"
    by (simp add: rooms_of_def)
  have own: "\<And>p. p \<in> set (map fst (rooms s)) \<Longrightarrow> \<exists>inner. map_of (rooms s) p = Some inner"
    using map_of_None_keys [of "rooms s"] by fastforce
  have "getParentRoomToken s T = None \<longleftrightarrow>
        (\<forall>p inner. map_of (rooms s) p = Some inner \<longrightarrow> \<not> is_defined inner T)"
  proof
    assume none: "getParentRoomToken s T = None"
    show "\<forall>p inner. map_of (rooms s) p = Some inner \<longrightarrow> \<not> is_defined inner T"
    proof (intro allI impI)
      fix p inner
      assume some: "map_of (rooms s) p = Some inner"
      then have "p \<in> set (map fst (rooms s))"
        using map_of_None_keys [of "rooms s" p] by simp
      with none some show "\<not> is_defined inner T"
        by (auto simp add: getParentRoomToken_def find_None_iff)
    qed
  next
    assume "\<forall>p inner. map_of (rooms s) p = Some inner \<longrightarrow> \<not> is_defined inner T"
    then show "getParentRoomToken s T = None"
      by (auto simp add: getParentRoomToken_def find_None_iff split: option.splits)
  qed
  also have "\<dots> \<longleftrightarrow>
     (\<forall>p. T \<notin> set (map fst (rooms_of s p))) \<and> (rooms s = [] \<or> T \<notin> set Object_prototype)"
  proof (intro iffI conjI allI impI)
    fix p
    assume a: "\<forall>p inner. map_of (rooms s) p = Some inner \<longrightarrow> \<not> is_defined inner T"
    show "T \<notin> set (map fst (rooms_of s p))"
    proof (cases "map_of (rooms s) p")
      case None
      then show ?thesis by (simp add: rooms_of_def)
    next
      case (Some inner)
      with a have "\<not> is_defined inner T" by blast
      then have "map_of inner T = None"
        by (simp add: is_defined_def split: option.splits)
      with Some show ?thesis
        by (simp add: rooms_of_def map_of_None_keys)
    qed
  next
    assume a: "\<forall>p inner. map_of (rooms s) p = Some inner \<longrightarrow> \<not> is_defined inner T"
    show "rooms s = [] \<or> T \<notin> set Object_prototype"
    proof (cases "rooms s")
      case Nil
      then show ?thesis by simp
    next
      case (Cons e es)
      then have "fst e \<in> set (map fst (rooms s))" by simp
      then obtain inner where "map_of (rooms s) (fst e) = Some inner"
        using own by blast
      with a have "\<not> is_defined inner T" by blast
      then show ?thesis
        by (simp add: is_defined_def split: option.splits)
    qed
  next
    fix p inner
    assume b: "(\<forall>p. T \<notin> set (map fst (rooms_of s p)))
                 \<and> (rooms s = [] \<or> T \<notin> set Object_prototype)"
      and some: "map_of (rooms s) p = Some inner"
    from some have "rooms s \<noteq> []" by auto
    with b have np: "T \<notin> set Object_prototype" by simp
    from b inner [OF some] have "T \<notin> set (map fst inner)" by metis
    then have "map_of inner T = None"
      by (simp add: map_of_None_keys)
    with np show "\<not> is_defined inner T"
      by (simp add: is_defined_def)
  qed
  finally show ?thesis .
qed

subsection \<open>The last conversation with a given token\<close>

lemma map_of_token_pairs:
  "map_of (map (\<lambda>c. (token c, c)) xs) k = find (\<lambda>c. token c = k) xs"
  by (induction xs) auto

lemma find_filter: "find Q (filter P xs) = find (\<lambda>x. P x \<and> Q x) xs"
  by (induction xs) auto

section \<open>The claims\<close>

subsection \<open>Syncing merges\<close>

text \<open>
  C1, as amended. A sync does not rebuild the mapping of the parent token: it merges. After
  \<^verbatim>\<open>processConversations\<close> on a list of conversations the mapping under the parent token
  is the mapping from before the sync, overridden by the breakout-room-typed
  conversations of the list under their tokens (for a token that occurs twice, the later
  conversation). Entries whose token the list does not mention are carried over. A single
  conversation is stored under its token if it is breakout-room-typed, and changes
  nothing otherwise.
\<close>

theorem processConversations_merges:
  "map_of (rooms_of (processConversations E T (Array cs) s) T) =
     map_of (rooms_of s T) ++
     map_of (rev (map (\<lambda>c. (token c, c)) (filter (\<lambda>c. objectType c = BREAKOUT_ROOM E) cs)))
   \<and> map_of (rooms_of (processConversations E T (Single c) s) T) =
       (if objectType c = BREAKOUT_ROOM E
        then (map_of (rooms_of s T))(token c \<mapsto> c) else map_of (rooms_of s T))"
  using rooms_of_processConversations [of E T "Array cs" s T]
    rooms_of_processConversations [of E T "Single c" s T]
  by (simp add: map_of_foldl_set map_of_Vue_set to_array_def is_breakout_room_def [abs_def]
      is_breakout_room_def)

text \<open>
  C1, as stated, fails: with room \<open>a\<close> stored under \<open>parent\<close>, a sync whose reply is the
  single breakout room \<open>b\<close> leaves both \<open>a\<close> and \<open>b\<close> under \<open>parent\<close>, not \<open>b\<close> alone.
\<close>

theorem processConversations_keeps_earlier_rooms:
  "breakoutRooms (processConversations offline ''parent'' (Array [room_b]) one_room_state)
     ''parent'' = [room_a, room_b]
   \<and> room_a \<notin> set [room_b]"
  by (simp add: breakoutRooms_def rooms_of_def processConversations_def addBreakoutRoom_def
      to_array_def Vue_set_def assign_def add_property_def sample_keys effect_defs Let_def
      one_room_state_def offline_def room_a_def room_b_def)

subsection \<open>Deleting\<close>



subsection \<open>Configuring\<close>

text \<open>
  C3, as amended. Let the configure request for parent \<open>T\<close> and amount \<open>N\<close> succeed, the
  reply hold exactly \<open>N\<close> breakout-room-typed conversations, their tokens pairwise
  distinct, and let every room the store already holds under \<open>T\<close> (there may be none)
  be one of them by its token. Then the getter returns \<open>N\<close> rooms for \<open>T\<close>.
\<close>

theorem configureBreakoutRooms_room_count:
  assumes ok: "fst (configureBreakoutRooms_service (conversations_reply E) T mode N am s) = Inr d"
    and n: "int (length (filter (is_breakout_room E) (to_array d))) = N"
    and fresh: "distinct (map token (filter (is_breakout_room E) (to_array d)))"
    and inv: "rooms_inv s"
    and known: "set (map token (breakoutRooms s T))
                  \<subseteq> set (map token (filter (is_breakout_room E) (to_array d)))"
  shows "int (length (breakoutRooms (snd (configureBreakoutRooms E T mode N am s)) T)) = N"
proof -
  let ?new = "filter (is_breakout_room E) (to_array d)"
  let ?after = "foldl (\<lambda>m c. Vue_set m (token c) c) (rooms_of s T) ?new"
  have after: "rooms_of (snd (configureBreakoutRooms E T mode N am s)) T = ?after"
    by (simp add: rooms_configureBreakoutRooms_success [OF ok] rooms_of_processConversations)
  have d0: "distinct (map fst (rooms_of s T))"
    and k0: "map token (breakoutRooms s T) = map fst (rooms_of s T)"
    using rooms_inv_rooms_of [OF inv, of T] by simp_all
  have "distinct (map fst ?after)"
    using d0 by (rule distinct_foldl_set)
  then have "card (set (map fst ?after)) = length (map fst ?after)"
    by (rule distinct_card)
  then have l1: "length ?after = card (fst ` set ?after)"
    by simp
  have "fst ` set (rooms_of s T) \<subseteq> token ` set ?new"
    using known by (simp add: k0)
  then have l2: "fst ` set ?after = token ` set ?new"
    by (simp only: keys_foldl_set) blast
  have "card (set (map token ?new)) = length (map token ?new)"
    using fresh by (rule distinct_card)
  then have l3: "card (token ` set ?new) = length ?new"
    by simp
  have "length ?after = length ?new"
    by (simp only: l1 l2 l3)
  then show ?thesis
    using n by (simp add: breakoutRooms_def after)
qed

text \<open>
  Two rooms configured for \<open>parent\<close>, one of which, \<open>a\<close>, the store already knows.
\<close>

theorem configureBreakoutRooms_room_count_witness:
  "fst (configureBreakoutRooms_service
          (conversations_reply (replying (Inr (Array [parent_conversation, room_a, room_b]))))
          ''parent'' 1 2 None one_room_state) = Inr (Array [parent_conversation, room_a, room_b])
   \<and> rooms_inv one_room_state
   \<and> int (length (breakoutRooms (snd (configureBreakoutRooms
          (replying (Inr (Array [parent_conversation, room_a, room_b])))
          ''parent'' 1 2 None one_room_state)) ''parent'')) = 2"
proof -
  let ?d = "Array [parent_conversation, room_a, room_b]"
  have new: "filter (is_breakout_room (replying (Inr ?d))) (to_array ?d) = [room_a, room_b]"
    by (simp add: is_breakout_room_def to_array_def sample_defs)
  have ok: "fst (configureBreakoutRooms_service (conversations_reply (replying (Inr ?d)))
          ''parent'' 1 2 None one_room_state) = Inr ?d"
    by (simp add: replying_succeeds)
  have n: "int (length (filter (is_breakout_room (replying (Inr ?d))) (to_array ?d))) = 2"
    by (simp add: new)
  have fresh: "distinct (map token (filter (is_breakout_room (replying (Inr ?d))) (to_array ?d)))"
    by (simp add: new) (simp add: room_a_def room_b_def)
  have inv: "rooms_inv one_room_state"
    by (simp add: rooms_inv_def one_room_state_def room_a_def)
  have known: "set (map token (breakoutRooms one_room_state ''parent''))
                  \<subseteq> set (map token (filter (is_breakout_room (replying (Inr ?d))) (to_array ?d)))"
    by (simp add: new) (simp add: breakoutRooms_def rooms_of_def one_room_state_def)
  show ?thesis
    using ok inv configureBreakoutRooms_room_count [OF ok n fresh inv known] by simp
qed

text \<open>
  C3, as stated, fails: the store holds room \<open>a\<close> under \<open>parent\<close>; one room is configured
  and the server returns the parent conversation and the new room \<open>b\<close>. The getter then
  returns two rooms, not one.
\<close>

theorem configureBreakoutRooms_counts_earlier_rooms:
  "fst (configureBreakoutRooms_service
          (conversations_reply (replying (Inr (Array [parent_conversation, room_b]))))
          ''parent'' 1 1 None one_room_state) = Inr (Array [parent_conversation, room_b])
   \<and> int (length (breakoutRooms (snd (configureBreakoutRooms
          (replying (Inr (Array [parent_conversation, room_b])))
          ''parent'' 1 1 None one_room_state)) ''parent'')) \<noteq> 1"
proof -
  have "breakoutRooms (snd (configureBreakoutRooms
          (replying (Inr (Array [parent_conversation, room_b])))
          ''parent'' 1 1 None one_room_state)) ''parent'' = [room_a, room_b]"
    by (simp add: configureBreakoutRooms_def fetchBreakoutRoomsParticipants_def service_defs
        async_defs breakoutRooms_def rooms_of_def processConversations_def addBreakoutRoom_def
        to_array_def Vue_set_def assign_def add_property_def sample_keys effect_defs Let_def
        one_room_state_def replying_def once_def parent_conversation_def room_b_def)
  then show ?thesis
    by (simp add: replying_succeeds)
qed

subsection \<open>Filtering by type tag\<close>

text \<open>
  C4. For every parent token and every list of conversations, \<^verbatim>\<open>processConversations\<close>
  stores exactly the conversations whose \<^verbatim>\<open>objectType\<close> is the breakout-room tag. Under the
  parent token, a token is mapped afterwards to the last conversation of the list that
  carries the tag and has that token, and as before if the list has none; the keys are
  those from before and the tokens of the tagged conversations. The mapping of every
  other parent is as before. The whole list, whatever the types, is dispatched once to
  the general store as \<^verbatim>\<open>patchConversations\<close>. A single conversation is processed as the
  list of that one conversation.
\<close>

theorem processConversations_filters_and_forwards:
  "map_of (rooms_of (processConversations E T (Array cs) s) T) k =
     (case find (\<lambda>c. objectType c = BREAKOUT_ROOM E \<and> token c = k) (rev cs) of
        Some c \<Rightarrow> Some c
      | None \<Rightarrow> map_of (rooms_of s T) k)
   \<and> fst ` set (rooms_of (processConversations E T (Array cs) s) T) =
       fst ` set (rooms_of s T) \<union> token ` {c \<in> set cs. objectType c = BREAKOUT_ROOM E}
   \<and> (T' \<noteq> T \<longrightarrow> rooms_of (processConversations E T (Array cs) s) T' = rooms_of s T')
   \<and> effects (processConversations E T (Array cs) s) =
       effects s @ [Dispatch_patchConversations cs]
   \<and> processConversations E T (Single c) s = processConversations E T (Array [c]) s"
proof -
  let ?tagged = "filter (\<lambda>c. objectType c = BREAKOUT_ROOM E) cs"
  have r: "rooms_of (processConversations E T (Array cs) s) T =
           foldl (\<lambda>m c. Vue_set m (token c) c) (rooms_of s T) ?tagged"
    by (simp add: rooms_of_processConversations to_array_def is_breakout_room_def [abs_def])
  have "map_of (rev (map (\<lambda>c. (token c, c)) ?tagged)) k =
        find (\<lambda>c. objectType c = BREAKOUT_ROOM E \<and> token c = k) (rev cs)"
    by (simp add: map_of_token_pairs find_filter rev_map rev_filter)
  then have 1: "map_of (rooms_of (processConversations E T (Array cs) s) T) k =
     (case find (\<lambda>c. objectType c = BREAKOUT_ROOM E \<and> token c = k) (rev cs) of
        Some c \<Rightarrow> Some c
      | None \<Rightarrow> map_of (rooms_of s T) k)"
    by (simp add: r map_of_foldl_set map_add_def)
  have 2: "fst ` set (rooms_of (processConversations E T (Array cs) s) T) =
       fst ` set (rooms_of s T) \<union> token ` {c \<in> set cs. objectType c = BREAKOUT_ROOM E}"
    by (simp add: r keys_foldl_set)
  have 3: "T' \<noteq> T \<longrightarrow> rooms_of (processConversations E T (Array cs) s) T' = rooms_of s T'"
    by (simp add: rooms_of_processConversations)
  have 4: "effects (processConversations E T (Array cs) s) =
       effects s @ [Dispatch_patchConversations cs]"
    by (simp add: effects_processConversations to_array_def)
  have 5: "processConversations E T (Single c) s = processConversations E T (Array [c]) s"
    by (simp add: processConversations_def to_array_def)
  from 1 2 3 4 5 show ?thesis
    by (intro conjI)
qed

text \<open>
  A sync of \<open>parent\<close>, which has room \<open>a\<close>, with the parent conversation and room \<open>b\<close>:
  \<open>b\<close> is stored, the parent conversation is not, no other parent gets a room, and
  both conversations are forwarded.
\<close>

theorem processConversations_filters_and_forwards_witness:
  "map_of (rooms_of (processConversations offline ''parent''
             (Array [parent_conversation, room_b]) one_room_state) ''parent'') ''b'' = Some room_b
   \<and> fst ` set (rooms_of (processConversations offline ''parent''
             (Array [parent_conversation, room_b]) one_room_state) ''parent'') = {''a'', ''b''}
   \<and> ''a'' \<noteq> ''parent''
   \<and> rooms_of (processConversations offline ''parent''
             (Array [parent_conversation, room_b]) one_room_state) ''a'' = []
   \<and> effects (processConversations offline ''parent''
             (Array [parent_conversation, room_b]) one_room_state) =
       [Dispatch_patchConversations [parent_conversation, room_b]]"
proof -
  have b: "BREAKOUT_ROOM offline = ''room''"
    by (simp add: offline_def)
  have o: "rooms_of one_room_state ''parent'' = [(''a'', room_a)]"
      "rooms_of one_room_state ''a'' = []" "effects one_room_state = []"
    by (simp_all add: rooms_of_def one_room_state_def)
  have t: "{c \<in> set [parent_conversation, room_b]. objectType c = ''room''} = {room_b}"
    by (auto simp add: parent_conversation_def room_b_def)
  have f: "find (\<lambda>c. objectType c = ''room'' \<and> token c = ''b'')
             (rev [parent_conversation, room_b]) = Some room_b"
    by (simp add: room_b_def)
  have i: "token ` {room_b} = {''b''}"
    by (simp add: room_b_def)
  have n: "''a'' \<noteq> ''parent''"
    by simp
  show ?thesis
    using processConversations_filters_and_forwards
      [of offline "''parent''" "[parent_conversation, room_b]" one_room_state "''b''" "''a''"]
    by (simp only: b o t f i option.case) (simp add: insert_commute)
qed

subsection \<open>Failures: the console and the toast\<close>

text \<open>
  C5, as amended. When the service call of an action rejects, the action catches the
  error and logs it to the console. Nine actions then show a toast whose text is a fixed
  localized string, the same whatever the error. \<^verbatim>\<open>getBreakoutRooms\<close> and
  \<^verbatim>\<open>fetchBreakoutRoomsParticipants\<close> (also when it runs inside \<^verbatim>\<open>configureBreakoutRooms\<close>
  or \<^verbatim>\<open>reorganizeAttendees\<close>) only log: after the request, the console entry is the
  last effect.
\<close>

theorem failures_are_logged_and_mostly_toasted:
  "(fst (configureBreakoutRooms_service (conversations_reply E) T mode amount am s) = Inl e
      \<longrightarrow> effects (snd (configureBreakoutRooms E T mode amount am s)) =
          effects (snd (configureBreakoutRooms_service (conversations_reply E) T mode amount am s))
          @ [Console_error e,
             ShowError (Translated ''spreed'' ''An error occurred while creating breakout rooms'')])
   \<and> (fst (reorganizeAttendees_service (conversations_reply E) T attendeeMap s) = Inl e
      \<longrightarrow> effects (snd (reorganizeAttendees E T attendeeMap s)) =
          effects (snd (reorganizeAttendees_service (conversations_reply E) T attendeeMap s))
          @ [Console_error e,
             ShowError (Translated ''spreed'' ''An error occurred while re-ordering the attendees'')])
   \<and> (fst (deleteBreakoutRooms_service (conversations_reply E) T s) = Inl e
      \<longrightarrow> effects (snd (deleteBreakoutRooms E T s)) =
          effects (snd (deleteBreakoutRooms_service (conversations_reply E) T s))
          @ [Console_error e,
             ShowError (Translated ''spreed'' ''An error occurred while deleting breakout rooms'')])
   \<and> (fst (startBreakoutRooms_service (conversations_reply E) T s) = Inl e
      \<longrightarrow> effects (snd (startBreakoutRooms E T s)) =
          effects (snd (startBreakoutRooms_service (conversations_reply E) T s))
          @ [Console_error e,
             ShowError (Translated ''spreed'' ''An error occurred while starting breakout rooms'')])
   \<and> (fst (stopBreakoutRooms_service (conversations_reply E) T s) = Inl e
      \<longrightarrow> effects (snd (stopBreakoutRooms E T s)) =
          effects (snd (stopBreakoutRooms_service (conversations_reply E) T s))
          @ [Console_error e,
             ShowError (Translated ''spreed'' ''An error occurred while stopping breakout rooms'')])
   \<and> (fst (broadcastMessageToBreakoutRooms_service (broadcast_reply E) T message s) = Inl e
      \<longrightarrow> effects (snd (broadcastMessageToBreakoutRooms E T message s)) =
          effects (snd (broadcastMessageToBreakoutRooms_service (broadcast_reply E) T message s))
          @ [Console_error e,
             ShowError (Translated ''spreed''
               ''An error occurred while sending a message to the breakout rooms'')])
   \<and> (fst (requestAssistance_service (room_reply E) T s) = Inl e
      \<longrightarrow> effects (snd (requestAssistance E T s)) =
          effects (snd (requestAssistance_service (room_reply E) T s))
          @ [Console_error e,
             ShowError (Translated ''spreed'' ''An error occurred while requesting assistance'')])
   \<and> (fst (resetRequestAssistance_service (room_reply E) T s) = Inl e
      \<longrightarrow> effects (snd (dismissRequestAssistance E T s)) =
          effects (snd (resetRequestAssistance_service (room_reply E) T s))
          @ [Console_error e,
             ShowError (Translated ''spreed''
               ''An error occurred while resetting the request for assistance'')])
   \<and> (fst (switchToBreakoutRoom_service (conversations_reply E) T target s) = Inl e
      \<longrightarrow> effects (snd (switchToBreakoutRoom E T target s)) =
          effects (snd (switchToBreakoutRoom_service (conversations_reply E) T target s))
          @ [Console_error e,
             ShowError (Translated ''spreed'' ''An error occurred while joining breakout room'')])
   \<and> (fst (getBreakoutRooms_service (conversations_reply E) T s) = Inl e
      \<longrightarrow> effects (snd (getBreakoutRooms E T s)) =
          effects (snd (getBreakoutRooms_service (conversations_reply E) T s))
          @ [Console_error e])
   \<and> (fst (getBreakoutRoomsParticipants_service (participants_reply E) T s) = Inl e
      \<longrightarrow> effects (snd (fetchBreakoutRoomsParticipants E T s)) =
          effects (snd (getBreakoutRoomsParticipants_service (participants_reply E) T s))
          @ [Console_error e])"
  by (simp add: configureBreakoutRooms_failure reorganizeAttendees_failure
      deleteBreakoutRooms_failure getBreakoutRooms_failure startBreakoutRooms_failure
      stopBreakoutRooms_failure requestAssistance_failure dismissRequestAssistance_failure
      switchToBreakoutRoom_failure broadcastMessageToBreakoutRooms_failure
      fetchBreakoutRoomsParticipants_failure effects_console_error effects_showError)

text \<open>With the server unreachable: one action that toasts, one that does not.\<close>

theorem failures_are_logged_and_mostly_toasted_witness:
  "fst (startBreakoutRooms_service (conversations_reply offline) ''parent'' initial_state)
     = Inl NetworkError
   \<and> effects (snd (startBreakoutRooms offline ''parent'' initial_state)) =
       [HttpRequest \<lparr>http_method = POST,
                     url = generateOcsUrl ''/apps/spreed/api/v1/breakout-rooms/{token}/rooms''
                             ''parent'',
                     payload = None\<rparr>,
        Console_error NetworkError,
        ShowError (Translated ''spreed'' ''An error occurred while starting breakout rooms'')]
   \<and> fst (getBreakoutRooms_service (conversations_reply offline) ''parent'' initial_state)
     = Inl NetworkError
   \<and> effects (snd (getBreakoutRooms offline ''parent'' initial_state)) =
       [HttpRequest \<lparr>http_method = GET,
                     url = generateOcsUrl ''/apps/spreed/api/v4/room/{token}/breakout-rooms''
                             ''parent'',
                     payload = None\<rparr>,
        Console_error NetworkError]"
  using failures_are_logged_and_mostly_toasted
    [of offline "''parent''" 1 2 None initial_state NetworkError "''{}''" "''hello''" "''a''"]
  by (simp add: offline_fails)
     (simp add: startBreakoutRooms_service_def getBreakoutRooms_service_def axios_post_def
        axios_get_def axios_def offline_def once_def initial_state_def)

text \<open>
  C5, as stated, fails: with the server unreachable, neither \<^verbatim>\<open>getBreakoutRooms\<close> nor
  \<^verbatim>\<open>fetchBreakoutRoomsParticipants\<close> shows a toast.
\<close>

theorem getBreakoutRooms_failure_shows_no_toast:
  "fst (getBreakoutRooms_service (conversations_reply offline) ''parent'' initial_state)
     = Inl NetworkError
   \<and> filter is_toast (effects (snd (getBreakoutRooms offline ''parent'' initial_state))) = []
   \<and> fst (getBreakoutRoomsParticipants_service (participants_reply offline) ''parent''
            initial_state)
     = Inl NetworkError
   \<and> filter is_toast (effects (snd (fetchBreakoutRoomsParticipants offline ''parent''
                                      initial_state))) = []"
  by (simp add: getBreakoutRooms_def fetchBreakoutRoomsParticipants_def getBreakoutRooms_service_def
      getBreakoutRoomsParticipants_service_def async_defs effect_defs offline_def once_def
      initial_state_def)

subsection \<open>Failures never reach the caller\<close>

text \<open>
  C6. No asynchronous action of the store rejects: whatever the server replies to any
  request, error or not, each of the eleven actions resolves, with no value. The outcome
  therefore carries nothing by which a caller could tell one failure from another, or a
  failure from a success.
\<close>

theorem actions_always_resolve:
  "fst (configureBreakoutRooms E T mode amount am s) = Inr ()
   \<and> fst (reorganizeAttendees E T attendeeMap s) = Inr ()
   \<and> fst (deleteBreakoutRooms E T s) = Inr ()
   \<and> fst (getBreakoutRooms E T s) = Inr ()
   \<and> fst (startBreakoutRooms E T s) = Inr ()
   \<and> fst (stopBreakoutRooms E T s) = Inr ()
   \<and> fst (broadcastMessageToBreakoutRooms E T message s) = Inr ()
   \<and> fst (fetchBreakoutRoomsParticipants E T s) = Inr ()
   \<and> fst (requestAssistance E T s) = Inr ()
   \<and> fst (dismissRequestAssistance E T s) = Inr ()
   \<and> fst (switchToBreakoutRoom E T target s) = Inr ()"
proof -
  have 1: "fst (configureBreakoutRooms E T mode amount am s) = Inr ()"
    using service_outcome_cases [of "configureBreakoutRooms_service (conversations_reply E) T mode amount am" s]
    by (auto simp add: configureBreakoutRooms_failure configureBreakoutRooms_success)
  have 2: "fst (reorganizeAttendees E T attendeeMap s) = Inr ()"
    using service_outcome_cases [of "reorganizeAttendees_service (conversations_reply E) T attendeeMap" s]
    by (auto simp add: reorganizeAttendees_failure reorganizeAttendees_success)
  have 3: "fst (deleteBreakoutRooms E T s) = Inr ()"
    using service_outcome_cases [of "deleteBreakoutRooms_service (conversations_reply E) T" s]
    by (auto simp add: deleteBreakoutRooms_failure deleteBreakoutRooms_success)
  have 4: "fst (getBreakoutRooms E T s) = Inr ()"
    using service_outcome_cases [of "getBreakoutRooms_service (conversations_reply E) T" s]
    by (auto simp add: getBreakoutRooms_failure getBreakoutRooms_success)
  have 5: "fst (startBreakoutRooms E T s) = Inr ()"
    using service_outcome_cases [of "startBreakoutRooms_service (conversations_reply E) T" s]
    by (auto simp add: startBreakoutRooms_failure startBreakoutRooms_success)
  have 6: "fst (stopBreakoutRooms E T s) = Inr ()"
    using service_outcome_cases [of "stopBreakoutRooms_service (conversations_reply E) T" s]
    by (auto simp add: stopBreakoutRooms_failure stopBreakoutRooms_success)
  have 7: "fst (broadcastMessageToBreakoutRooms E T message s) = Inr ()"
    using service_outcome_cases [of "broadcastMessageToBreakoutRooms_service (broadcast_reply E) T message" s]
    by (auto simp add: broadcastMessageToBreakoutRooms_failure broadcastMessageToBreakoutRooms_success)
  have 8: "fst (requestAssistance E T s) = Inr ()"
    using service_outcome_cases [of "requestAssistance_service (room_reply E) T" s]
    by (auto simp add: requestAssistance_failure requestAssistance_success)
  have 9: "fst (dismissRequestAssistance E T s) = Inr ()"
    using service_outcome_cases [of "resetRequestAssistance_service (room_reply E) T" s]
    by (auto simp add: dismissRequestAssistance_failure dismissRequestAssistance_success)
  have 10: "fst (switchToBreakoutRoom E T target s) = Inr ()"
    using service_outcome_cases [of "switchToBreakoutRoom_service (conversations_reply E) T target" s]
    by (auto simp add: switchToBreakoutRoom_failure switchToBreakoutRoom_success)
  show ?thesis
    using 1 2 3 4 5 6 7 8 9 10 fetchBreakoutRoomsParticipants_outcome [of E T s] by simp
qed

subsection \<open>One client call per service function\<close>

text \<open>
  C7, as amended. Each of the eleven service functions makes exactly one call of the
  client, whatever the client is and does: the outcome of the function is the outcome of
  that call, and the requests sent are those the client sends for that call, so the
  function adds no request and no retry of its own. The call has the method the interface
  table lists; its path is the listed one under the API prefix \<^verbatim>\<open>/apps/spreed/api/v1\<close>
  (\<^verbatim>\<open>v4\<close> for the two \<^verbatim>\<open>/room\<close> endpoints), with the token given for \<^verbatim>\<open>{token}\<close>; the body
  holds the payload fields (\<^verbatim>\<open>attendeeMap\<close> as \<^verbatim>\<open>undefined\<close> when it is not given), and is
  absent where the table lists none.
\<close>

theorem services_make_one_client_call:
  "configureBreakoutRooms_service client T mode amount (Some attendeeMap) s =
       (fst (client
           \<lparr>http_method = POST,
            url = generateOcsUrl (''/apps/spreed/api/v1'' @ ''/breakout-rooms/{token}'') T,
            payload = Some [(''mode'', Num mode), (''amount'', Num amount),
                           (''attendeeMap'', Str attendeeMap)]\<rparr>),
        s\<lparr>effects := effects s @ map HttpRequest (snd (client
           \<lparr>http_method = POST,
            url = generateOcsUrl (''/apps/spreed/api/v1'' @ ''/breakout-rooms/{token}'') T,
            payload = Some [(''mode'', Num mode), (''amount'', Num amount),
                           (''attendeeMap'', Str attendeeMap)]\<rparr>))\<rparr>)
   \<and> configureBreakoutRooms_service client T mode amount None s =
       (fst (client
           \<lparr>http_method = POST,
            url = generateOcsUrl (''/apps/spreed/api/v1'' @ ''/breakout-rooms/{token}'') T,
            payload = Some [(''mode'', Num mode), (''amount'', Num amount),
                           (''attendeeMap'', Undefined)]\<rparr>),
        s\<lparr>effects := effects s @ map HttpRequest (snd (client
           \<lparr>http_method = POST,
            url = generateOcsUrl (''/apps/spreed/api/v1'' @ ''/breakout-rooms/{token}'') T,
            payload = Some [(''mode'', Num mode), (''amount'', Num amount),
                           (''attendeeMap'', Undefined)]\<rparr>))\<rparr>)
   \<and> reorganizeAttendees_service client T attendeeMap s =
       (fst (client
           \<lparr>http_method = POST,
            url = generateOcsUrl (''/apps/spreed/api/v1'' @ ''/breakout-rooms/{token}/attendees'') T,
            payload = Some [(''attendeeMap'', Str attendeeMap)]\<rparr>),
        s\<lparr>effects := effects s @ map HttpRequest (snd (client
           \<lparr>http_method = POST,
            url = generateOcsUrl (''/apps/spreed/api/v1'' @ ''/breakout-rooms/{token}/attendees'') T,
            payload = Some [(''attendeeMap'', Str attendeeMap)]\<rparr>))\<rparr>)
   \<and> deleteBreakoutRooms_service client T s =
       (fst (client
           \<lparr>http_method = DELETE,
            url = generateOcsUrl (''/apps/spreed/api/v1'' @ ''/breakout-rooms/{token}'') T,
            payload = None\<rparr>),
        s\<lparr>effects := effects s @ map HttpRequest (snd (client
           \<lparr>http_method = DELETE,
            url = generateOcsUrl (''/apps/spreed/api/v1'' @ ''/breakout-rooms/{token}'') T,
            payload = None\<rparr>))\<rparr>)
   \<and> getBreakoutRooms_service client T s =
       (fst (client
           \<lparr>http_method = GET,
            url = generateOcsUrl (''/apps/spreed/api/v4'' @ ''/room/{token}/breakout-rooms'') T,
            payload = None\<rparr>),
        s\<lparr>effects := effects s @ map HttpRequest (snd (client
           \<lparr>http_method = GET,
            url = generateOcsUrl (''/apps/spreed/api/v4'' @ ''/room/{token}/breakout-rooms'') T,
            payload = None\<rparr>))\<rparr>)
   \<and> startBreakoutRooms_service client T s =
       (fst (client
           \<lparr>http_method = POST,
            url = generateOcsUrl (''/apps/spreed/api/v1'' @ ''/breakout-rooms/{token}/rooms'') T,
            payload = None\<rparr>),
        s\<lparr>effects := effects s @ map HttpRequest (snd (client
           \<lparr>http_method = POST,
            url = generateOcsUrl (''/apps/spreed/api/v1'' @ ''/breakout-rooms/{token}/rooms'') T,
            payload = None\<rparr>))\<rparr>)
   \<and> stopBreakoutRooms_service client T s =
       (fst (client
           \<lparr>http_method = DELETE,
            url = generateOcsUrl (''/apps/spreed/api/v1'' @ ''/breakout-rooms/{token}/rooms'') T,
            payload = None\<rparr>),
        s\<lparr>effects := effects s @ map HttpRequest (snd (client
           \<lparr>http_method = DELETE,
            url = generateOcsUrl (''/apps/spreed/api/v1'' @ ''/breakout-rooms/{token}/rooms'') T,
            payload = None\<rparr>))\<rparr>)
   \<and> broadcastMessageToBreakoutRooms_service client T message s =
       (fst (client
           \<lparr>http_method = POST,
            url = generateOcsUrl (''/apps/spreed/api/v1'' @ ''/breakout-rooms/{token}/broadcast'') T,
            payload = Some [(''message'', Str message)]\<rparr>),
        s\<lparr>effects := effects s @ map HttpRequest (snd (client
           \<lparr>http_method = POST,
            url = generateOcsUrl (''/apps/spreed/api/v1'' @ ''/breakout-rooms/{token}/broadcast'') T,
            payload = Some [(''message'', Str message)]\<rparr>))\<rparr>)
   \<and> getBreakoutRoomsParticipants_service client T s =
       (fst (client
           \<lparr>http_method = GET,
            url = generateOcsUrl (''/apps/spreed/api/v4'' @ ''/room/{token}/breakout-rooms/participants'') T,
            payload = None\<rparr>),
        s\<lparr>effects := effects s @ map HttpRequest (snd (client
           \<lparr>http_method = GET,
            url = generateOcsUrl (''/apps/spreed/api/v4'' @ ''/room/{token}/breakout-rooms/participants'') T,
            payload = None\<rparr>))\<rparr>)
   \<and> requestAssistance_service client T s =
       (fst (client
           \<lparr>http_method = POST,
            url = generateOcsUrl (''/apps/spreed/api/v1'' @ ''/breakout-rooms/{token}/request-assistance'') T,
            payload = None\<rparr>),
        s\<lparr>effects := effects s @ map HttpRequest (snd (client
           \<lparr>http_method = POST,
            url = generateOcsUrl (''/apps/spreed/api/v1'' @ ''/breakout-rooms/{token}/request-assistance'') T,
            payload = None\<rparr>))\<rparr>)
   \<and> resetRequestAssistance_service client T s =
       (fst (client
           \<lparr>http_method = DELETE,
            url = generateOcsUrl (''/apps/spreed/api/v1'' @ ''/breakout-rooms/{token}/request-assistance'') T,
            payload = None\<rparr>),
        s\<lparr>effects := effects s @ map HttpRequest (snd (client
           \<lparr>http_method = DELETE,
            url = generateOcsUrl (''/apps/spreed/api/v1'' @ ''/breakout-rooms/{token}/request-assistance'') T,
            payload = None\<rparr>))\<rparr>)
   \<and> switchToBreakoutRoom_service client T target s =
       (fst (client
           \<lparr>http_method = POST,
            url = generateOcsUrl (''/apps/spreed/api/v1'' @ ''/breakout-rooms/{token}/switch'') T,
            payload = Some [(''target'', Str target)]\<rparr>),
        s\<lparr>effects := effects s @ map HttpRequest (snd (client
           \<lparr>http_method = POST,
            url = generateOcsUrl (''/apps/spreed/api/v1'' @ ''/breakout-rooms/{token}/switch'') T,
            payload = Some [(''target'', Str target)]\<rparr>))\<rparr>)"
  by (simp add: service_defs axios_post_def axios_get_def axios_delete_def axios_def
      optional_string_def)

text \<open>
  C7, as stated, fails: how many requests one call sends is the client's affair. With a
  client that repeats a request after a 412 reply, one call of \<^verbatim>\<open>getBreakoutRooms\<close> of the
  service sends the request twice.
\<close>

theorem service_call_may_send_twice:
  "effects (snd (getBreakoutRooms_service
                   (repeated (Inl (ResponseError 412)) :: conversationOrArray client)
                   ''parent'' initial_state)) =
     [HttpRequest \<lparr>http_method = GET,
                   url = generateOcsUrl ''/apps/spreed/api/v4/room/{token}/breakout-rooms''
                           ''parent'',
                   payload = None\<rparr>,
      HttpRequest \<lparr>http_method = GET,
                   url = generateOcsUrl ''/apps/spreed/api/v4/room/{token}/breakout-rooms''
                           ''parent'',
                   payload = None\<rparr>]"
  by (simp add: getBreakoutRooms_service_def axios_get_def axios_def repeated_def
      initial_state_def)

subsection \<open>Room tokens are unique under a parent\<close>

text \<open>
  C8. The invariant: the keys of \<^verbatim>\<open>rooms\<close> and of every parent's mapping are pairwise
  distinct, and every room is stored under its own token. It holds initially and every
  store operation preserves it: the three synchronous actions and the eleven
  asynchronous ones, whatever the server replies. Under it the rooms the getter returns
  for a parent have pairwise distinct tokens. \<^verbatim>\<open>addBreakoutRoom\<close> with a token already
  present under the parent leaves the number of rooms as it is and makes the given room
  the entry of that token; with a new token it adds one room.
\<close>

theorem room_tokens_stay_unique:
  assumes "rooms_inv s"
  shows "rooms_inv (addBreakoutRoom T b s)
       \<and> rooms_inv (processConversations E T d s)
       \<and> rooms_inv (purgeBreakoutRoomsStore T s)
       \<and> rooms_inv (snd (configureBreakoutRooms E T mode amount am s))
       \<and> rooms_inv (snd (reorganizeAttendees E T attendeeMap s))
       \<and> rooms_inv (snd (deleteBreakoutRooms E T s))
       \<and> rooms_inv (snd (getBreakoutRooms E T s))
       \<and> rooms_inv (snd (startBreakoutRooms E T s))
       \<and> rooms_inv (snd (stopBreakoutRooms E T s))
       \<and> rooms_inv (snd (broadcastMessageToBreakoutRooms E T message s))
       \<and> rooms_inv (snd (fetchBreakoutRoomsParticipants E T s))
       \<and> rooms_inv (snd (requestAssistance E T s))
       \<and> rooms_inv (snd (dismissRequestAssistance E T s))
       \<and> rooms_inv (snd (switchToBreakoutRoom E T target s))
       \<and> distinct (map token (breakoutRooms s T))
       \<and> length (breakoutRooms (addBreakoutRoom T b s) T) =
           (if token b \<in> set (map token (breakoutRooms s T))
            then length (breakoutRooms s T) else Suc (length (breakoutRooms s T)))
       \<and> map_of (rooms_of (addBreakoutRoom T b s) T) (token b) = Some b
       \<and> rooms_inv initial_state"
proof -
  have u: "distinct (map token (breakoutRooms s T))"
    and k: "map token (breakoutRooms s T) = map fst (rooms_of s T)"
    using rooms_inv_rooms_of [OF assms, of T] by simp_all
  have l: "length (breakoutRooms (addBreakoutRoom T b s) T) =
           (if token b \<in> set (map token (breakoutRooms s T))
            then length (breakoutRooms s T) else Suc (length (breakoutRooms s T)))"
    by (simp only: k length_breakoutRooms_addBreakoutRoom)
  have m: "map_of (rooms_of (addBreakoutRoom T b s) T) (token b) = Some b"
    by (simp add: rooms_of_addBreakoutRoom map_of_Vue_set)
  have i: "rooms_inv initial_state"
    by (simp add: rooms_inv_def initial_state_def)
  from assms u l m i show ?thesis
    by (simp only: rooms_inv_addBreakoutRoom rooms_inv_processConversations
        rooms_inv_purgeBreakoutRoomsStore rooms_inv_configureBreakoutRooms
        rooms_inv_reorganizeAttendees rooms_inv_deleteBreakoutRooms rooms_inv_getBreakoutRooms
        rooms_inv_startBreakoutRooms rooms_inv_stopBreakoutRooms
        rooms_inv_broadcastMessageToBreakoutRooms rooms_inv_fetchBreakoutRoomsParticipants
        rooms_inv_requestAssistance rooms_inv_dismissRequestAssistance
        rooms_inv_switchToBreakoutRoom simp_thms)
qed

text \<open>
  Room \<open>a\<close> under \<open>parent\<close> is added again with changed content; then a fetch returns
  it together with a second room.
\<close>

theorem room_tokens_stay_unique_witness:
  "rooms_inv one_room_state
   \<and> rooms_inv (addBreakoutRoom ''parent'' room_a_updated one_room_state)
   \<and> length (breakoutRooms (addBreakoutRoom ''parent'' room_a_updated one_room_state) ''parent'') = 1
   \<and> map_of (rooms_of (addBreakoutRoom ''parent'' room_a_updated one_room_state) ''parent'') ''a''
       = Some room_a_updated
   \<and> rooms_inv (snd (getBreakoutRooms (replying (Inr (Array [room_a_updated, room_b])))
                       ''parent'' one_room_state))"
proof -
  have inv: "rooms_inv one_room_state"
    by (simp add: rooms_inv_def one_room_state_def room_a_def)
  have t: "token room_a_updated = ''a''"
    by (simp add: room_a_updated_def)
  have b: "breakoutRooms one_room_state ''parent'' = [room_a]"
    by (simp add: breakoutRooms_def rooms_of_def one_room_state_def)
  show ?thesis
    using inv
      room_tokens_stay_unique [OF inv, of "''parent''" room_a_updated
        "replying (Inr (Array [room_a_updated, room_b]))"]
    by (simp add: t b room_a_def)
qed

subsection \<open>The getters on unknown tokens\<close>

text \<open>
  C9 does not hold of the code. With room \<open>a\<close> stored under \<open>parent\<close>, the token
  \<open>toString\<close> is a room token of no parent, yet \<^verbatim>\<open>getParentRoomToken\<close> returns \<open>parent\<close>
  for it and not \<^verbatim>\<open>undefined\<close>: the read \<^verbatim>\<open>state.rooms[parentRoomToken]?.[token]\<close> finds the
  member \<open>toString\<close> that the mapping inherits. (What the two getters do on tokens
  that name no inherited member is \<open>breakoutRooms_unknown_token\<close> and
  \<open>getParentRoomToken_None_iff\<close> above.)
\<close>

theorem getParentRoomToken_finds_inherited_member:
  "getParentRoomToken one_room_state ''toString'' = Some ''parent''
   \<and> map fst (rooms one_room_state) = [''parent'']
   \<and> map fst (rooms_of one_room_state ''parent'') = [''a'']"
  by (simp add: getParentRoomToken_def is_defined_def Object_prototype_def rooms_of_def
      one_room_state_def)

subsection \<open>A failed request changes no room\<close>

text \<open>
  C10. When the service call of a state-changing action rejects, the action leaves
  \<^verbatim>\<open>rooms\<close> exactly as it found it. The nine actions are those that call
  \<^verbatim>\<open>processConversations\<close>; the service call is the one each action names (for
  \<^verbatim>\<open>configureBreakoutRooms\<close> and \<^verbatim>\<open>reorganizeAttendees\<close>, the first one).
\<close>

theorem failed_request_leaves_rooms_unchanged:
  "(fst (configureBreakoutRooms_service (conversations_reply E) T mode amount am s) = Inl e
      \<longrightarrow> rooms (snd (configureBreakoutRooms E T mode amount am s)) = rooms s)
   \<and> (fst (reorganizeAttendees_service (conversations_reply E) T attendeeMap s) = Inl e
      \<longrightarrow> rooms (snd (reorganizeAttendees E T attendeeMap s)) = rooms s)
   \<and> (fst (deleteBreakoutRooms_service (conversations_reply E) T s) = Inl e
      \<longrightarrow> rooms (snd (deleteBreakoutRooms E T s)) = rooms s)
   \<and> (fst (getBreakoutRooms_service (conversations_reply E) T s) = Inl e
      \<longrightarrow> rooms (snd (getBreakoutRooms E T s)) = rooms s)
   \<and> (fst (startBreakoutRooms_service (conversations_reply E) T s) = Inl e
      \<longrightarrow> rooms (snd (startBreakoutRooms E T s)) = rooms s)
   \<and> (fst (stopBreakoutRooms_service (conversations_reply E) T s) = Inl e
      \<longrightarrow> rooms (snd (stopBreakoutRooms E T s)) = rooms s)
   \<and> (fst (requestAssistance_service (room_reply E) T s) = Inl e
      \<longrightarrow> rooms (snd (requestAssistance E T s)) = rooms s)
   \<and> (fst (resetRequestAssistance_service (room_reply E) T s) = Inl e
      \<longrightarrow> rooms (snd (dismissRequestAssistance E T s)) = rooms s)
   \<and> (fst (switchToBreakoutRoom_service (conversations_reply E) T target s) = Inl e
      \<longrightarrow> rooms (snd (switchToBreakoutRoom E T target s)) = rooms s)"
  by (simp add: configureBreakoutRooms_failure reorganizeAttendees_failure
      deleteBreakoutRooms_failure getBreakoutRooms_failure startBreakoutRooms_failure
      stopBreakoutRooms_failure requestAssistance_failure dismissRequestAssistance_failure
      switchToBreakoutRoom_failure rooms_console_error rooms_showError rooms_services)

text \<open>
  With the server unreachable and room \<open>a\<close> stored under \<open>parent\<close>, configuring,
  deleting and requesting assistance fail and the room is still there.
\<close>

theorem failed_request_leaves_rooms_unchanged_witness:
  "fst (configureBreakoutRooms_service (conversations_reply offline) ''parent'' 1 2 None one_room_state)
     = Inl NetworkError
   \<and> rooms (snd (configureBreakoutRooms offline ''parent'' 1 2 None one_room_state))
     = [(''parent'', [(''a'', room_a)])]
   \<and> fst (deleteBreakoutRooms_service (conversations_reply offline) ''parent'' one_room_state)
     = Inl NetworkError
   \<and> rooms (snd (deleteBreakoutRooms offline ''parent'' one_room_state))
     = [(''parent'', [(''a'', room_a)])]
   \<and> fst (requestAssistance_service (room_reply offline) ''a'' one_room_state) = Inl NetworkError
   \<and> rooms (snd (requestAssistance offline ''a'' one_room_state))
     = [(''parent'', [(''a'', room_a)])]"
  using failed_request_leaves_rooms_unchanged
    [of offline "''parent''" 1 2 None one_room_state NetworkError "''{}''" "''a''"]
    failed_request_leaves_rooms_unchanged
    [of offline "''a''" 1 2 None one_room_state NetworkError "''{}''" "''b''"]
  by (simp add: offline_fails) (simp add: one_room_state_def)

end
